theory Spec2Isabelle
  imports Complex_Main "HOL-Library.Multiset" "HOL-Library.Sublist" "HOL-Library.Log_Nat"
begin

section \<open>Data model\<close>

text \<open>
  The two edge functions \<^verbatim>\<open>supabase/functions/chat/index.ts\<close> and
  \<^verbatim>\<open>supabase/functions/feedback/index.ts\<close> are request handlers over two external
  collaborators: the relational store (tables \<^verbatim>\<open>session\<close>, \<^verbatim>\<open>scenario\<close>,
  \<^verbatim>\<open>message\<close>, \<^verbatim>\<open>feedback\<close> of the migration) and the chat-completion API.

  Strings are byte strings (UTF-8), identifiers are the text of the uuid, and points in
  time are natural numbers (only their order and their presence matter to the handlers).
  Only the columns the handlers read or write are kept. The store client is taken as
  constructed (the handlers assert its URL and key with \<^verbatim>\<open>!\<close>, and the service role
  bypasses row-level security); logging with \<^verbatim>\<open>console.error\<close> is left out.
\<close>

type_synonym uuid = string
type_synonym timestamp = nat

text \<open>
  The values \<^verbatim>\<open>JSON.parse\<close> produces. A number is an IEEE 754 double: \<open>JNumber q\<close>
  is the finite double of value \<open>q\<close> (negative zero is not told from zero: both are
  serialised as \<^verbatim>\<open>0\<close>), \<open>JInfinity negative\<close> is \<^verbatim>\<open>Infinity\<close> or \<^verbatim>\<open>-Infinity\<close>,
  which the parser gives for a literal beyond the range of doubles.
\<close>

datatype json =
    JNull
  | JBool bool
  | JNumber rat
  | JInfinity bool
  | JString string
  | JArray "json list"
  | JObject "(string \<times> json) list"

record session_row =
  s_id :: uuid
  s_scenario_id :: "uuid option"
  s_ended_at :: "timestamp option"
  s_status :: string

record scenario_row =
  sc_id :: uuid
  sc_title :: string
  sc_objective :: string
  sc_ai_persona :: string

record message_row =
  m_session_id :: "uuid option"
  m_role :: string
  m_content :: string
  m_created_at :: timestamp

text \<open>
  The \<^verbatim>\<open>scores\<close> object literal of the feedback handler. A member whose value is
  \<^verbatim>\<open>undefined\<close> (\<open>None\<close>) is dropped when the object is serialised, so it is absent
  from the stored \<^verbatim>\<open>jsonb\<close> value.
\<close>

record scores =
  clarity :: "json option"
  empathy :: "json option"
  assertiveness :: "json option"

text \<open>
  A stored feedback row. \<^verbatim>\<open>summary\<close> and \<^verbatim>\<open>recommendations\<close> are
  \<^verbatim>\<open>text NOT NULL\<close>; the row keeps the JSON value that was submitted for them.
\<close>

record feedback_row =
  f_id :: nat
  f_session_id :: "uuid option"
  f_summary :: json
  f_scores :: scores
  f_recommendations :: json
  f_created_at :: timestamp

record store =
  session_table :: "session_row list"
  scenario_table :: "scenario_row list"
  message_table :: "message_row list"
  feedback_table :: "feedback_row list"
  feedback_id_seq :: nat

subsection \<open>The chat-completion API\<close>

record chat_message =
  role :: string
  content :: string

record completion_request =
  model :: string
  messages :: "chat_message list"
  temperature :: rat
  max_tokens :: nat

text \<open>
  What one \<^verbatim>\<open>fetch\<close> of the completion endpoint can give the handler:
  the fetch rejects; the status is not a success and the body text is \<open>errorText\<close>;
  the status is a success but \<^verbatim>\<open>openaiResponse.json()\<close> or the access
  \<^verbatim>\<open>openaiData.choices[0].message.content\<close> throws; or the access yields the content,
  a string or \<^verbatim>\<open>null\<close>.
\<close>

datatype upstream =
    FetchRejected string
  | NotOk string
  | BadResponse string
  | Completion "string option"

subsection \<open>Exceptions, effects, environment\<close>

text \<open>Every value the handlers can throw has a \<^verbatim>\<open>message\<close>.\<close>

datatype thrown =
    Error string
  | SyntaxError string
  | TypeError string
  | PostgrestError string

fun message :: "thrown \<Rightarrow> string" where
  "message (Error m) = m"
| "message (SyntaxError m) = m"
| "message (TypeError m) = m"
| "message (PostgrestError m) = m"

datatype store_op = SelectSession | SelectMessages | InsertFeedback | UpdateSession

datatype effect = StoreCall store_op | ApiCall completion_request

text \<open>
  The environment of one invocation: the configured key, the outcomes of the external
  calls, the clocks and the texts of the messages the runtime and the store produce.
  \<open>store_fault op = Some m\<close> says that the store client returns an error with message
  \<open>m\<close> for that call (the client reports errors by value and does not throw).
\<close>

record env =
  OPENAI_API_KEY :: "string option"
  completion :: "completion_request \<Rightarrow> upstream"
  store_fault :: "store_op \<Rightarrow> string option"
  now :: timestamp
  db_now :: timestamp
  syntax_error_message :: "string \<Rightarrow> string"
  type_error_message :: "string \<Rightarrow> string"
  not_null_message :: "string \<Rightarrow> string"
  foreign_key_message :: "string \<Rightarrow> string"

text \<open>The state threaded through a handler: the store and the calls made so far.\<close>

record state =
  db :: store
  trace :: "effect list"

definition emit :: "effect \<Rightarrow> state \<Rightarrow> state" where
  "emit x st = st\<lparr>trace := trace st @ [x]\<rparr>"

subsection \<open>Requests and responses\<close>

text \<open>\<open>Malformed m\<close>: \<^verbatim>\<open>await req.json()\<close> rejects with message \<open>m\<close>.\<close>

datatype 'b parsed = Malformed string | Parsed 'b

record 'b request =
  req_method :: string
  payload :: "'b parsed"

record ChatRequest =
  session_id :: string
  user_message :: string
  is_initial :: "bool option"

record FeedbackRequest =
  fr_session_id :: string

text \<open>The body of a response is the serialisation of one of these values.\<close>

datatype body =
    NoBody
  | MessageBody "string option"
  | FeedbackBody feedback_row
  | ErrorBody string

record response =
  status :: nat
  headers :: "(string \<times> string) list"
  body :: body

section \<open>Store queries\<close>

text \<open>
  \<^verbatim>\<open>.from('session').select('scenario_id, scenario(...)').eq('id', session_id).single()\<close>:
  an error unless exactly one row matches; the scenario is embedded through the
  nullable foreign key \<^verbatim>\<open>scenario_id\<close>.
\<close>

definition embed_scenario :: "store \<Rightarrow> session_row \<Rightarrow> scenario_row option" where
  "embed_scenario d s =
     (case s_scenario_id s of
        None \<Rightarrow> None
      | Some k \<Rightarrow> find (\<lambda>c. sc_id c = k) (scenario_table d))"

definition select_session ::
  "env \<Rightarrow> state \<Rightarrow> uuid \<Rightarrow> (session_row \<times> scenario_row option) option \<times> state" where
  "select_session e st sid =
     (let st' = emit (StoreCall SelectSession) st in
      case store_fault e SelectSession of
        Some m \<Rightarrow> (None, st')
      | None \<Rightarrow>
          (case filter (\<lambda>s. s_id s = sid) (session_table (db st)) of
             [s] \<Rightarrow> (Some (s, embed_scenario (db st) s), st')
           | _ \<Rightarrow> (None, st')))"

text \<open>
  \<^verbatim>\<open>.from('message').select('role, content').eq('session_id', session_id).order('created_at')\<close>:
  ascending by creation time (the store does not fix the order of rows with equal times;
  here they stay in table order).
  \<open>None\<close> is the \<^verbatim>\<open>null\<close> data of a failed query.
\<close>

definition select_messages :: "env \<Rightarrow> state \<Rightarrow> uuid \<Rightarrow> message_row list option \<times> state" where
  "select_messages e st sid =
     (let st' = emit (StoreCall SelectMessages) st in
      case store_fault e SelectMessages of
        Some m \<Rightarrow> (None, st')
      | None \<Rightarrow>
          (Some (sort_key m_created_at
                   (filter (\<lambda>m. m_session_id m = Some sid) (message_table (db st)))), st'))"

section \<open>The conversation orchestrator\<close>

definition chat_corsHeaders :: "(string \<times> string) list" where
  "chat_corsHeaders =
     [(''Access-Control-Allow-Origin'', ''*''),
      (''Access-Control-Allow-Methods'', ''GET, POST, PUT, DELETE, OPTIONS''),
      (''Access-Control-Allow-Headers'', ''Content-Type, Authorization, X-Client-Info, Apikey'')]"

definition truthy :: "bool option \<Rightarrow> bool" where
  "truthy b = (b = Some True)"

definition chat_systemPrompt :: "scenario_row \<Rightarrow> bool option \<Rightarrow> string" where
  \<open>chat_systemPrompt scenario initial =
     ''You are a professional communication coach simulating a real-world '' @ sc_title scenario
       @ '' scenario.\<newline>''
     @ ''Your role: '' @ sc_ai_persona scenario @ ''\<newline>''
     @ ''\<newline>''
     @ ''Objective: '' @ sc_objective scenario @ ''\<newline>''
     @ ''\<newline>''
     @ ''Your goal is to help the user practice effective conversation and improve their communication skills.\<newline>''
     @ ''Keep responses concise (2-3 sentences), natural, and human-like.\<newline>''
     @ ''Stay in character and create a realistic, challenging but supportive practice environment.\<newline>''
     @ (if truthy initial
        then ''Start the conversation by introducing yourself and the scenario context.''
        else ''Respond as your character would in this situation.'')\<close>

definition history_message :: "message_row \<Rightarrow> chat_message" where
  "history_message msg =
     \<lparr>role = (if m_role msg = ''assistant'' then ''assistant'' else ''user''),
      content = m_content msg\<rparr>"

definition chat_openaiMessages ::
  "scenario_row \<Rightarrow> message_row list \<Rightarrow> ChatRequest \<Rightarrow> chat_message list" where
  "chat_openaiMessages scenario conversationHistory b =
     (let openaiMessages =
            \<lparr>role = ''system'', content = chat_systemPrompt scenario (is_initial b)\<rparr>
              # map history_message conversationHistory
      in if \<not> truthy (is_initial b) \<and> user_message b \<noteq> ''''
         then openaiMessages @ [\<lparr>role = ''user'', content = user_message b\<rparr>]
         else openaiMessages)"

definition chat_completion_request ::
  "scenario_row \<Rightarrow> message_row list \<Rightarrow> ChatRequest \<Rightarrow> completion_request" where
  "chat_completion_request scenario conversationHistory b =
     \<lparr>model = ''gpt-4o-mini'',
      messages = chat_openaiMessages scenario conversationHistory b,
      temperature = 8 / 10,
      max_tokens = 200\<rparr>"

text \<open>The \<^verbatim>\<open>catch\<close> block: \<^verbatim>\<open>error.message || 'Internal server error'\<close>, status 500.\<close>

definition chat_catch :: "thrown \<Rightarrow> response" where
  "chat_catch error =
     \<lparr>status = 500,
      headers = chat_corsHeaders @ [(''Content-Type'', ''application/json'')],
      body = ErrorBody (if message error = '''' then ''Internal server error'' else message error)\<rparr>"

text \<open>The \<^verbatim>\<open>try\<close> block: \<open>Inl\<close> is a thrown value, \<open>Inr\<close> the returned response.\<close>

definition chat_try :: "env \<Rightarrow> state \<Rightarrow> ChatRequest request \<Rightarrow> (thrown + response) \<times> state" where
  "chat_try e st req =
     (if OPENAI_API_KEY e = None \<or> OPENAI_API_KEY e = Some ''''
      then (Inl (Error ''OpenAI API key not configured''), st)
      else
        case payload req of
          Malformed m \<Rightarrow> (Inl (SyntaxError m), st)
        | Parsed b \<Rightarrow>
            (case select_session e st (session_id b) of
               (None, st1) \<Rightarrow> (Inl (Error ''Session not found''), st1)
             | (Some (session, scenario), st1) \<Rightarrow>
                 (case select_messages e st1 (session_id b) of
                    (msgs, st2) \<Rightarrow>
                      (let conversationHistory = (case msgs of None \<Rightarrow> [] | Some ms \<Rightarrow> ms) in
                       case scenario of
                         None \<Rightarrow> (Inl (TypeError (type_error_message e ''title'')), st2)
                       | Some sc \<Rightarrow>
                           (let rq = chat_completion_request sc conversationHistory b;
                                st3 = emit (ApiCall rq) st2
                            in case completion e rq of
                                 FetchRejected m \<Rightarrow> (Inl (TypeError m), st3)
                               | NotOk errorText \<Rightarrow>
                                   (Inl (Error (''OpenAI API error: '' @ errorText)), st3)
                               | BadResponse m \<Rightarrow> (Inl (TypeError m), st3)
                               | Completion aiMessage \<Rightarrow>
                                   (Inr \<lparr>status = 200,
                                         headers = chat_corsHeaders
                                           @ [(''Content-Type'', ''application/json'')],
                                         body = MessageBody aiMessage\<rparr>, st3))))))"

definition chat_handler :: "env \<Rightarrow> state \<Rightarrow> ChatRequest request \<Rightarrow> response \<times> state" where
  "chat_handler e st req =
     (if req_method req = ''OPTIONS''
      then (\<lparr>status = 200, headers = chat_corsHeaders, body = NoBody\<rparr>, st)
      else
        case chat_try e st req of
          (Inl error, st') \<Rightarrow> (chat_catch error, st')
        | (Inr r, st') \<Rightarrow> (r, st'))"

section \<open>\<^verbatim>\<open>JSON.parse\<close>\<close>

text \<open>
  The feedback handler parses the model's text with the built-in \<^verbatim>\<open>JSON.parse\<close>.
  It is modelled by a lexer and a stack parser for the JSON grammar (ECMA-404), both
  total: a text that is not JSON gives \<open>None\<close>, where \<^verbatim>\<open>JSON.parse\<close> throws a
  \<^verbatim>\<open>SyntaxError\<close>.
\<close>

subsection \<open>Characters\<close>

definition code :: "char \<Rightarrow> nat" where
  "code c = of_char c"

definition is_ws :: "char \<Rightarrow> bool" where
  "is_ws c = (code c = 0x20 \<or> code c = 0x09 \<or> code c = 0x0A \<or> code c = 0x0D)"

definition is_digit :: "char \<Rightarrow> bool" where
  "is_digit c = (0x30 \<le> code c \<and> code c \<le> 0x39)"

definition is_letter :: "char \<Rightarrow> bool" where
  "is_letter c = ((0x41 \<le> code c \<and> code c \<le> 0x5A) \<or> (0x61 \<le> code c \<and> code c \<le> 0x7A))"

text \<open>The characters of numbers and of the literals \<^verbatim>\<open>true\<close>, \<^verbatim>\<open>false\<close>, \<^verbatim>\<open>null\<close>.\<close>

definition is_word_char :: "char \<Rightarrow> bool" where
  "is_word_char c = (is_digit c \<or> is_letter c \<or> c = CHR ''-'' \<or> c = CHR ''+'' \<or> c = CHR ''.'')"

definition hex_value :: "char \<Rightarrow> nat option" where
  "hex_value c =
     (if is_digit c then Some (code c - 0x30)
      else if 0x41 \<le> code c \<and> code c \<le> 0x46 then Some (code c - 0x41 + 10)
      else if 0x61 \<le> code c \<and> code c \<le> 0x66 then Some (code c - 0x61 + 10)
      else None)"

definition byte :: "nat \<Rightarrow> char" where
  "byte n = char_of n"

text \<open>UTF-8 of one UTF-16 code unit, and of a code point beyond the basic plane.\<close>

definition utf8_unit :: "nat \<Rightarrow> string" where
  "utf8_unit u =
     (if u < 0x80 then [byte u]
      else if u < 0x800 then [byte (0xC0 + u div 64), byte (0x80 + u mod 64)]
      else [byte (0xE0 + u div 4096), byte (0x80 + (u div 64) mod 64), byte (0x80 + u mod 64)])"

definition utf8_astral :: "nat \<Rightarrow> string" where
  "utf8_astral p =
     [byte (0xF0 + p div 262144), byte (0x80 + (p div 4096) mod 64),
      byte (0x80 + (p div 64) mod 64), byte (0x80 + p mod 64)]"

text \<open>
  Appending the code unit of a \<^verbatim>\<open>\uXXXX\<close> escape to the (reversed) string read so
  far; a low surrogate right after a high surrogate makes one code point.
\<close>

definition append_unit :: "nat \<Rightarrow> string \<Rightarrow> string" where
  "append_unit u acc =
     (case acc of
        b3 # b2 # b1 # rest \<Rightarrow>
          if 0xDC00 \<le> u \<and> u \<le> 0xDFFF \<and> code b1 = 0xED \<and> 0xA0 \<le> code b2 \<and> code b2 \<le> 0xAF
          then rev (utf8_astral (0x10000 + ((code b2 - 0xA0) * 64 + (code b3 - 0x80)) * 1024
                                   + (u - 0xDC00))) @ rest
          else rev (utf8_unit u) @ acc
      | _ \<Rightarrow> rev (utf8_unit u) @ acc)"

subsection \<open>Numbers\<close>

definition digits_value :: "string \<Rightarrow> int" where
  "digits_value ds = foldl (\<lambda>n c. 10 * n + int (code c - 0x30)) 0 ds"

definition scale10 :: "rat \<Rightarrow> int \<Rightarrow> rat" where
  "scale10 x ex = (if 0 \<le> ex then x * 10 ^ nat ex else x / 10 ^ nat (- ex))"

text \<open>The exponent part: empty, or \<^verbatim>\<open>e\<close>/\<^verbatim>\<open>E\<close>, an optional sign and digits.\<close>

definition exponent :: "string \<Rightarrow> int option" where
  "exponent cs =
     (case cs of
        [] \<Rightarrow> Some 0
      | c # r \<Rightarrow>
          if c = CHR ''e'' \<or> c = CHR ''E'' then
            (let neg = (r \<noteq> [] \<and> hd r = CHR ''-'');
                 ds = (if r \<noteq> [] \<and> (hd r = CHR ''-'' \<or> hd r = CHR ''+'') then tl r else r)
             in if ds \<noteq> [] \<and> list_all is_digit ds
                then Some (if neg then - digits_value ds else digits_value ds)
                else None)
          else None)"

text \<open>The fraction part and what follows it: \<^verbatim>\<open>.\<close> and at least one digit, or nothing.\<close>

definition fraction :: "string \<Rightarrow> (string \<times> string) option" where
  "fraction cs =
     (case cs of
        [] \<Rightarrow> Some ([], [])
      | c # r \<Rightarrow>
          if c = CHR ''.'' then
            (if takeWhile is_digit r = [] then None
             else Some (takeWhile is_digit r, dropWhile is_digit r))
          else Some ([], cs))"

text \<open>The exact value of a number literal; \<open>None\<close> when the text is not one.\<close>

definition literal_value :: "string \<Rightarrow> rat option" where
  "literal_value cs =
     (let neg = (cs \<noteq> [] \<and> hd cs = CHR ''-'');
          cs1 = (if neg then tl cs else cs);
          ip = takeWhile is_digit cs1
      in if ip = [] \<or> (1 < length ip \<and> hd ip = CHR ''0'') then None
         else
           case fraction (dropWhile is_digit cs1) of
             None \<Rightarrow> None
           | Some (fp, cs3) \<Rightarrow>
               (case exponent cs3 of
                  None \<Rightarrow> None
                | Some ex \<Rightarrow>
                    (let v = scale10 (of_int (digits_value (ip @ fp)) / 10 ^ length fp) ex
                     in Some (if neg then - v else v))))"

text \<open>
  The double nearest to a rational, ties to the even significand: a significand of 53
  bits at the exponent of the value, or at the least exponent \<open>- 1074\<close> for the
  subnormal values; a result of \<open>2 ^ 1024\<close> or more is infinite.
\<close>

definition pow2 :: "int \<Rightarrow> rat" where
  "pow2 k = (if 0 \<le> k then 2 ^ nat k else 1 / 2 ^ nat (- k))"

definition round_half_even :: "rat \<Rightarrow> int" where
  "round_half_even q =
     (let f = \<lfloor>q\<rfloor>; r = q - of_int f
      in if r < 1 / 2 then f
         else if 1 / 2 < r then f + 1
         else if even f then f else f + 1)"

text \<open>For a positive \<open>q\<close>, the \<open>k\<close> with \<open>2 ^ k \<le> q < 2 ^ (k + 1)\<close>.\<close>

definition floor_log2 :: "rat \<Rightarrow> int" where
  "floor_log2 q =
     (let k = bitlen (fst (quotient_of q)) - bitlen (snd (quotient_of q))
      in if pow2 k \<le> q then k else k - 1)"

definition double_of :: "rat \<Rightarrow> json" where
  "double_of q =
     (if q = 0 then JNumber 0
      else
        (let a = \<bar>q\<bar>;
             ex = max (floor_log2 a - 52) (- 1074);
             v = of_int (round_half_even (a / pow2 ex)) * pow2 ex
         in if 1024 \<le> floor_log2 v then JInfinity (q < 0)
            else JNumber (if q < 0 then - v else v)))"

definition parse_number :: "string \<Rightarrow> json option" where
  "parse_number cs = map_option double_of (literal_value cs)"

subsection \<open>Lexer\<close>

datatype token = LBrace | RBrace | LBracket | RBracket | Colon | Comma | Scalar json

definition word_token :: "string \<Rightarrow> token option" where
  "word_token w =
     (if w = ''true'' then Some (Scalar (JBool True))
      else if w = ''false'' then Some (Scalar (JBool False))
      else if w = ''null'' then Some (Scalar JNull)
      else map_option Scalar (parse_number w))"

text \<open>
  The lexer's state: between tokens; inside a string (the characters read so far,
  reversed); after a backslash; inside \<^verbatim>\<open>\uXXXX\<close> (the hex digits read so far);
  inside a number or literal (its characters, reversed).
\<close>

datatype lex_state =
    Idle
  | InString string
  | InEscape string
  | InUnicode string "nat list"
  | InWord string

definition lex_idle :: "token list \<Rightarrow> char \<Rightarrow> (lex_state \<times> token list) option" where
  "lex_idle ts c =
     (if is_ws c then Some (Idle, ts)
      else if c = CHR ''{'' then Some (Idle, LBrace # ts)
      else if c = CHR ''}'' then Some (Idle, RBrace # ts)
      else if c = CHR ''['' then Some (Idle, LBracket # ts)
      else if c = CHR '']'' then Some (Idle, RBracket # ts)
      else if c = CHR '':'' then Some (Idle, Colon # ts)
      else if c = CHR '','' then Some (Idle, Comma # ts)
      else if code c = 0x22 then Some (InString [], ts)
      else if is_word_char c then Some (InWord [c], ts)
      else None)"

definition unescape :: "char \<Rightarrow> char option" where
  "unescape c =
     (if code c = 0x22 \<or> code c = 0x5C \<or> c = CHR ''/'' then Some c
      else if c = CHR ''b'' then Some (byte 0x08)
      else if c = CHR ''f'' then Some (byte 0x0C)
      else if c = CHR ''n'' then Some (byte 0x0A)
      else if c = CHR ''r'' then Some (byte 0x0D)
      else if c = CHR ''t'' then Some (byte 0x09)
      else None)"

fun lex_step :: "lex_state \<Rightarrow> token list \<Rightarrow> char \<Rightarrow> (lex_state \<times> token list) option" where
  "lex_step Idle ts c = lex_idle ts c"
| "lex_step (InString acc) ts c =
     (if code c = 0x22 then Some (Idle, Scalar (JString (rev acc)) # ts)
      else if code c = 0x5C then Some (InEscape acc, ts)
      else if code c < 0x20 then None
      else Some (InString (c # acc), ts))"
| "lex_step (InEscape acc) ts c =
     (if c = CHR ''u'' then Some (InUnicode acc [], ts)
      else case unescape c of
             None \<Rightarrow> None
           | Some d \<Rightarrow> Some (InString (d # acc), ts))"
| "lex_step (InUnicode acc ds) ts c =
     (case hex_value c of
        None \<Rightarrow> None
      | Some d \<Rightarrow>
          if length ds = 3
          then Some (InString (append_unit (foldl (\<lambda>n x. 16 * n + x) 0 (ds @ [d])) acc), ts)
          else Some (InUnicode acc (ds @ [d]), ts))"
| "lex_step (InWord w) ts c =
     (if is_word_char c then Some (InWord (c # w), ts)
      else case word_token (rev w) of
             None \<Rightarrow> None
           | Some t \<Rightarrow> lex_idle (t # ts) c)"

fun lex :: "lex_state \<Rightarrow> token list \<Rightarrow> string \<Rightarrow> token list option" where
  "lex Idle ts [] = Some (rev ts)"
| "lex (InWord w) ts [] = map_option (\<lambda>t. rev (t # ts)) (word_token (rev w))"
| "lex _ ts [] = None"
| "lex s ts (c # cs) =
     (case lex_step s ts c of
        None \<Rightarrow> None
      | Some (s', ts') \<Rightarrow> lex s' ts' cs)"

subsection \<open>Parser\<close>

text \<open>An open array with its elements so far, or an open object with its members so
  far and the key that waits for its value (both reversed).\<close>

datatype frame =
    ArrayFrame "json list"
  | ObjectFrame "(string \<times> json) list" "string option"

datatype expect =
    Value
  | ValueOrClose
  | KeyOrClose
  | Key
  | ColonNext
  | CommaOrClose
  | Done json

text \<open>A value is complete: it is the whole text, an element, or a member's value.\<close>

fun reduce :: "json \<Rightarrow> frame list \<Rightarrow> (expect \<times> frame list) option" where
  "reduce v [] = Some (Done v, [])"
| "reduce v (ArrayFrame xs # fs) = Some (CommaOrClose, ArrayFrame (v # xs) # fs)"
| "reduce v (ObjectFrame kvs (Some k) # fs) = Some (CommaOrClose, ObjectFrame ((k, v) # kvs) None # fs)"
| "reduce v (ObjectFrame kvs None # fs) = None"

definition close_array :: "frame list \<Rightarrow> (expect \<times> frame list) option" where
  "close_array fs =
     (case fs of
        ArrayFrame xs # fs' \<Rightarrow> reduce (JArray (rev xs)) fs'
      | _ \<Rightarrow> None)"

definition close_object :: "frame list \<Rightarrow> (expect \<times> frame list) option" where
  "close_object fs =
     (case fs of
        ObjectFrame kvs None # fs' \<Rightarrow> reduce (JObject (rev kvs)) fs'
      | _ \<Rightarrow> None)"

definition open_value :: "token \<Rightarrow> frame list \<Rightarrow> (expect \<times> frame list) option" where
  "open_value t fs =
     (case t of
        Scalar v \<Rightarrow> reduce v fs
      | LBracket \<Rightarrow> Some (ValueOrClose, ArrayFrame [] # fs)
      | LBrace \<Rightarrow> Some (KeyOrClose, ObjectFrame [] None # fs)
      | _ \<Rightarrow> None)"

definition take_key :: "token \<Rightarrow> frame list \<Rightarrow> (expect \<times> frame list) option" where
  "take_key t fs =
     (case (t, fs) of
        (Scalar (JString k), ObjectFrame kvs None # fs') \<Rightarrow>
          Some (ColonNext, ObjectFrame kvs (Some k) # fs')
      | _ \<Rightarrow> None)"

fun parse_step :: "expect \<Rightarrow> frame list \<Rightarrow> token \<Rightarrow> (expect \<times> frame list) option" where
  "parse_step Value fs t = open_value t fs"
| "parse_step ValueOrClose fs t = (if t = RBracket then close_array fs else open_value t fs)"
| "parse_step KeyOrClose fs t = (if t = RBrace then close_object fs else take_key t fs)"
| "parse_step Key fs t = take_key t fs"
| "parse_step ColonNext fs t = (if t = Colon then Some (Value, fs) else None)"
| "parse_step CommaOrClose fs t =
     (if t = Comma then
        (case fs of
           ArrayFrame xs # fs' \<Rightarrow> Some (Value, fs)
         | ObjectFrame kvs k # fs' \<Rightarrow> Some (Key, fs)
         | [] \<Rightarrow> None)
      else if t = RBracket then close_array fs
      else if t = RBrace then close_object fs
      else None)"
| "parse_step (Done v) fs t = None"

fun parse_tokens :: "expect \<Rightarrow> frame list \<Rightarrow> token list \<Rightarrow> json option" where
  "parse_tokens (Done v) [] [] = Some v"
| "parse_tokens x fs [] = None"
| "parse_tokens x fs (t # ts) =
     (case parse_step x fs t of
        None \<Rightarrow> None
      | Some (x', fs') \<Rightarrow> parse_tokens x' fs' ts)"

definition JSON_parse :: "string \<Rightarrow> json option" where
  "JSON_parse text = (case lex Idle [] text of None \<Rightarrow> None | Some ts \<Rightarrow> parse_tokens Value [] ts)"

section \<open>Store writes\<close>

record feedback_insert =
  i_session_id :: uuid
  i_summary :: "json option"
  i_scores :: scores
  i_recommendations :: "json option"

text \<open>
  What \<^verbatim>\<open>JSON.stringify\<close> makes of a value on the way to the store: a number that is
  not finite is written as \<^verbatim>\<open>null\<close>, at every depth.
\<close>

primrec wire :: "json \<Rightarrow> json" where
  "wire JNull = JNull"
| "wire (JBool b) = JBool b"
| "wire (JNumber q) = JNumber q"
| "wire (JInfinity negative) = JNull"
| "wire (JString s) = JString s"
| "wire (JArray xs) = JArray (map wire xs)"
| "wire (JObject kvs) = JObject (map (map_prod id wire) kvs)"

definition wire_body :: "feedback_insert \<Rightarrow> feedback_insert" where
  "wire_body v =
     \<lparr>i_session_id = i_session_id v,
      i_summary = map_option wire (i_summary v),
      i_scores =
        \<lparr>clarity = map_option wire (clarity (i_scores v)),
         empathy = map_option wire (empathy (i_scores v)),
         assertiveness = map_option wire (assertiveness (i_scores v))\<rparr>,
      i_recommendations = map_option wire (i_recommendations v)\<rparr>"

text \<open>
  \<^verbatim>\<open>.from('feedback').insert({...}).select().single()\<close>. The client sends the
  serialised values (\<open>wire_body\<close>). A member that is
  \<^verbatim>\<open>undefined\<close> is not sent, so its column is \<^verbatim>\<open>NULL\<close>, as for \<^verbatim>\<open>null\<close>
  (\<open>sql_value\<close>);
  the table of the migration has \<^verbatim>\<open>summary text NOT NULL\<close>,
  \<^verbatim>\<open>recommendations text NOT NULL\<close> and
  \<^verbatim>\<open>session_id uuid REFERENCES session(id)\<close>. The \<^verbatim>\<open>scores\<close> object is never
  \<^verbatim>\<open>NULL\<close>. \<open>Inl m\<close> is the client's \<^verbatim>\<open>error\<close> with message \<open>m\<close>,
  \<open>Inr row\<close> the inserted row.
\<close>

definition sql_value :: "json option \<Rightarrow> json option" where
  "sql_value x = (if x = Some JNull then None else x)"

definition insert_feedback ::
  "env \<Rightarrow> state \<Rightarrow> feedback_insert \<Rightarrow> (string + feedback_row) \<times> state" where
  "insert_feedback e st values =
     (let st' = emit (StoreCall InsertFeedback) st;
          v = wire_body values
      in
      case store_fault e InsertFeedback of
        Some m \<Rightarrow> (Inl m, st')
      | None \<Rightarrow>
          (case sql_value (i_summary v) of
             None \<Rightarrow> (Inl (not_null_message e ''summary''), st')
           | Some summary \<Rightarrow>
               (case sql_value (i_recommendations v) of
                  None \<Rightarrow> (Inl (not_null_message e ''recommendations''), st')
                | Some recommendations \<Rightarrow>
                    if \<not> list_ex (\<lambda>s. s_id s = i_session_id v) (session_table (db st))
                    then (Inl (foreign_key_message e ''session_id''), st')
                    else
                      (let feedback =
                             \<lparr>f_id = Suc (feedback_id_seq (db st)),
                              f_session_id = Some (i_session_id v),
                              f_summary = summary,
                              f_scores = i_scores v,
                              f_recommendations = recommendations,
                              f_created_at = db_now e\<rparr>
                       in (Inr feedback,
                           st'\<lparr>db := (db st)\<lparr>feedback_table := feedback_table (db st) @ [feedback],
                                             feedback_id_seq := Suc (feedback_id_seq (db st))\<rparr>\<rparr>)))))"

text \<open>
  \<^verbatim>\<open>.from('session').update({ status: 'completed', ended_at: ... }).eq('id', session_id)\<close>.
  The handler awaits the call and does not look at its result.
\<close>

definition complete_session :: "timestamp \<Rightarrow> session_row \<Rightarrow> session_row" where
  "complete_session t s = s\<lparr>s_status := ''completed'', s_ended_at := Some t\<rparr>"

definition update_session :: "env \<Rightarrow> state \<Rightarrow> uuid \<Rightarrow> state" where
  "update_session e st sid =
     (let st' = emit (StoreCall UpdateSession) st in
      case store_fault e UpdateSession of
        Some m \<Rightarrow> st'
      | None \<Rightarrow>
          st'\<lparr>db := (db st)\<lparr>session_table :=
                 map (\<lambda>s. if s_id s = sid then complete_session (now e) s else s)
                   (session_table (db st))\<rparr>\<rparr>)"

section \<open>The feedback orchestrator\<close>

definition feedback_corsHeaders :: "(string \<times> string) list" where
  "feedback_corsHeaders =
     [(''Access-Control-Allow-Origin'', ''*''),
      (''Access-Control-Allow-Methods'', ''GET, POST, PUT, DELETE, OPTIONS''),
      (''Access-Control-Allow-Headers'', ''Content-Type, Authorization, X-Client-Info, Apikey'')]"

fun join :: "string \<Rightarrow> string list \<Rightarrow> string" where
  "join sep [] = []"
| "join sep [x] = x"
| "join sep (x # y # ys) = x @ sep @ join sep (y # ys)"

definition transcript_line :: "message_row \<Rightarrow> string" where
  "transcript_line m = (if m_role m = ''user'' then ''User'' else ''Coach'') @ '': '' @ m_content m"

definition conversationText :: "message_row list \<Rightarrow> string" where
  "conversationText ms = join ''\<newline>\<newline>'' (map transcript_line ms)"

definition feedbackPrompt :: "scenario_row \<Rightarrow> message_row list \<Rightarrow> string" where
  \<open>feedbackPrompt scenario ms =
     ''You are an expert communication coach evaluating a practice conversation.\<newline>''
     @ ''\<newline>''
     @ ''Scenario: '' @ sc_title scenario @ ''\<newline>''
     @ ''Objective: '' @ sc_objective scenario @ ''\<newline>''
     @ ''\<newline>''
     @ ''Conversation:\<newline>''
     @ conversationText ms @ ''\<newline>''
     @ ''\<newline>''
     @ ''Evaluate the user's communication during this conversation on these metrics (0-5 scale):\<newline>''
     @ ''1. Clarity - Was the message structured, concise, and easy to follow?\<newline>''
     @ ''2. Empathy - Did the user demonstrate understanding and emotional awareness?\<newline>''
     @ ''3. Assertiveness - Did the user communicate confidently and maintain appropriate boundaries?\<newline>''
     @ ''\<newline>''
     @ ''Provide your response in the following JSON format:\<newline>''
     @ ''{\<newline>''
     @ ''  "summary": "A brief 2-3 sentence overall assessment of the user's performance",\<newline>''
     @ ''  "clarity": <number 0-5>,\<newline>''
     @ ''  "empathy": <number 0-5>,\<newline>''
     @ ''  "assertiveness": <number 0-5>,\<newline>''
     @ ''  "recommendations": "Three specific, actionable recommendations for improvement, each on a new line starting with a bullet point"\<newline>''
     @ ''}\<newline>''
     @ ''\<newline>''
     @ ''Respond ONLY with valid JSON, no additional text.''\<close>

definition feedback_completion_request :: "scenario_row \<Rightarrow> message_row list \<Rightarrow> completion_request" where
  "feedback_completion_request scenario ms =
     \<lparr>model = ''gpt-4o-mini'',
      messages =
        [\<lparr>role = ''system'',
          content = ''You are an expert communication coach providing constructive feedback.''\<rparr>,
         \<lparr>role = ''user'', content = feedbackPrompt scenario ms\<rparr>],
      temperature = 7 / 10,
      max_tokens = 500\<rparr>"

text \<open>
  Reading a member of the parsed value, for the five names the handler reads: a
  \<^verbatim>\<open>TypeError\<close> on \<^verbatim>\<open>null\<close>, the member's value on an object that has it (the
  last one when the text repeats the key), \<^verbatim>\<open>undefined\<close> otherwise.
\<close>

fun get_property :: "env \<Rightarrow> json \<Rightarrow> string \<Rightarrow> thrown + json option" where
  "get_property e JNull k = Inl (TypeError (type_error_message e k))"
| "get_property e (JObject kvs) k = Inr (map_of (rev kvs) k)"
| "get_property e v k = Inr None"

text \<open>The \<^verbatim>\<open>scores\<close> object and the argument of \<^verbatim>\<open>insert\<close>, in evaluation order.\<close>

definition feedback_values :: "env \<Rightarrow> uuid \<Rightarrow> json \<Rightarrow> thrown + feedback_insert" where
  "feedback_values e sid feedbackJson =
     (case get_property e feedbackJson ''clarity'' of
        Inl err \<Rightarrow> Inl err
      | Inr c \<Rightarrow>
     (case get_property e feedbackJson ''empathy'' of
        Inl err \<Rightarrow> Inl err
      | Inr em \<Rightarrow>
     (case get_property e feedbackJson ''assertiveness'' of
        Inl err \<Rightarrow> Inl err
      | Inr a \<Rightarrow>
     (case get_property e feedbackJson ''summary'' of
        Inl err \<Rightarrow> Inl err
      | Inr s \<Rightarrow>
     (case get_property e feedbackJson ''recommendations'' of
        Inl err \<Rightarrow> Inl err
      | Inr r \<Rightarrow>
          Inr \<lparr>i_session_id = sid,
               i_summary = s,
               i_scores = \<lparr>clarity = c, empathy = em, assertiveness = a\<rparr>,
               i_recommendations = r\<rparr>)))))"

definition feedback_catch :: "thrown \<Rightarrow> response" where
  "feedback_catch error =
     \<lparr>status = 500,
      headers = feedback_corsHeaders @ [(''Content-Type'', ''application/json'')],
      body = ErrorBody (if message error = '''' then ''Internal server error'' else message error)\<rparr>"

text \<open>
  \<^verbatim>\<open>JSON.parse\<close> turns its argument into a string first: \<^verbatim>\<open>null\<close> becomes the
  text \<^verbatim>\<open>null\<close>.
\<close>

definition ToString :: "string option \<Rightarrow> string" where
  "ToString t = (case t of None \<Rightarrow> ''null'' | Some x \<Rightarrow> x)"

text \<open>From \<^verbatim>\<open>JSON.parse(feedbackText)\<close> to the returned response.\<close>

definition feedback_persist :: "env \<Rightarrow> state \<Rightarrow> uuid \<Rightarrow> string option \<Rightarrow> (thrown + response) \<times> state" where
  "feedback_persist e st sid feedbackText =
     (let text = ToString feedbackText in
      case JSON_parse text of
        None \<Rightarrow> (Inl (SyntaxError (syntax_error_message e text)), st)
      | Some feedbackJson \<Rightarrow>
          (case feedback_values e sid feedbackJson of
             Inl err \<Rightarrow> (Inl err, st)
           | Inr v \<Rightarrow>
               (case insert_feedback e st v of
                  (Inl feedbackError, st1) \<Rightarrow> (Inl (PostgrestError feedbackError), st1)
                | (Inr feedback, st1) \<Rightarrow>
                    (Inr \<lparr>status = 200,
                          headers = feedback_corsHeaders
                            @ [(''Content-Type'', ''application/json'')],
                          body = FeedbackBody feedback\<rparr>,
                     update_session e st1 sid))))"

text \<open>From the prompt to the returned response.\<close>

definition feedback_evaluate ::
  "env \<Rightarrow> state \<Rightarrow> uuid \<Rightarrow> scenario_row \<Rightarrow> message_row list \<Rightarrow> (thrown + response) \<times> state" where
  "feedback_evaluate e st sid scenario ms =
     (let rq = feedback_completion_request scenario ms;
          st1 = emit (ApiCall rq) st
      in case completion e rq of
           FetchRejected m \<Rightarrow> (Inl (TypeError m), st1)
         | NotOk errorText \<Rightarrow> (Inl (Error (''OpenAI API error: '' @ errorText)), st1)
         | BadResponse m \<Rightarrow> (Inl (TypeError m), st1)
         | Completion feedbackText \<Rightarrow> feedback_persist e st1 sid feedbackText)"

definition feedback_try ::
  "env \<Rightarrow> state \<Rightarrow> FeedbackRequest request \<Rightarrow> (thrown + response) \<times> state" where
  "feedback_try e st req =
     (if OPENAI_API_KEY e = None \<or> OPENAI_API_KEY e = Some ''''
      then (Inl (Error ''OpenAI API key not configured''), st)
      else
        case payload req of
          Malformed m \<Rightarrow> (Inl (SyntaxError m), st)
        | Parsed b \<Rightarrow>
            (case select_session e st (fr_session_id b) of
               (None, st1) \<Rightarrow> (Inl (Error ''Session not found''), st1)
             | (Some (session, scenario), st1) \<Rightarrow>
                 (case select_messages e st1 (fr_session_id b) of
                    (None, st2) \<Rightarrow>
                      (Inl (Error ''Not enough conversation for feedback''), st2)
                  | (Some ms, st2) \<Rightarrow>
                      if length ms < 2
                      then (Inl (Error ''Not enough conversation for feedback''), st2)
                      else
                        (case scenario of
                           None \<Rightarrow> (Inl (TypeError (type_error_message e ''title'')), st2)
                         | Some sc \<Rightarrow>
                             feedback_evaluate e st2 (fr_session_id b) sc ms))))"

definition feedback_handler :: "env \<Rightarrow> state \<Rightarrow> FeedbackRequest request \<Rightarrow> response \<times> state" where
  "feedback_handler e st req =
     (if req_method req = ''OPTIONS''
      then (\<lparr>status = 200, headers = feedback_corsHeaders, body = NoBody\<rparr>, st)
      else
        case feedback_try e st req of
          (Inl error, st') \<Rightarrow> (feedback_catch error, st')
        | (Inr r, st') \<Rightarrow> (r, st'))"

section \<open>Observations and example inputs\<close>

text \<open>The effects a run added to the trace, and the message rows of a session.\<close>

definition new_effects :: "state \<Rightarrow> state \<Rightarrow> effect list" where
  "new_effects st st' = drop (length (trace st)) (trace st')"

definition session_messages :: "store \<Rightarrow> uuid \<Rightarrow> message_row list" where
  "session_messages d sid = filter (\<lambda>m. m_session_id m = Some sid) (message_table d)"

text \<open>
  The history the conversation orchestrator works with: the session's messages oldest
  first, or nothing when the message query fails.
\<close>

definition loaded_history :: "env \<Rightarrow> store \<Rightarrow> uuid \<Rightarrow> message_row list" where
  "loaded_history e d sid =
     (case store_fault e SelectMessages of
        Some m \<Rightarrow> []
      | None \<Rightarrow> sort_key m_created_at (session_messages d sid))"

definition session_rows :: "store \<Rightarrow> uuid \<Rightarrow> session_row list" where
  "session_rows d sid = filter (\<lambda>s. s_id s = sid) (session_table d)"

text \<open>The messages of the errors the store can return for the feedback insert.\<close>

definition insert_error :: "env \<Rightarrow> string \<Rightarrow> bool" where
  "insert_error e m =
     (store_fault e InsertFeedback = Some m
      \<or> m = not_null_message e ''summary''
      \<or> m = not_null_message e ''recommendations''
      \<or> m = foreign_key_message e ''session_id'')"

definition is_number :: "json option \<Rightarrow> bool" where
  "is_number x = (case x of Some (JNumber n) \<Rightarrow> True | _ \<Rightarrow> False)"

definition configured :: "env \<Rightarrow> bool" where
  "configured e = (OPENAI_API_KEY e \<noteq> None \<and> OPENAI_API_KEY e \<noteq> Some '''')"

text \<open>
  A store with one scenario, an active session with two messages (the later one first
  in the table) and a second active session with one message.
\<close>

definition example_scenario :: scenario_row where
  "example_scenario =
     \<lparr>sc_id = ''sc1'', sc_title = ''Job Interview'', sc_objective = ''Answer clearly'',
      sc_ai_persona = ''Hiring manager''\<rparr>"

definition example_session :: session_row where
  "example_session =
     \<lparr>s_id = ''s1'', s_scenario_id = Some ''sc1'', s_ended_at = None, s_status = ''active''\<rparr>"

definition example_session2 :: session_row where
  "example_session2 =
     \<lparr>s_id = ''s2'', s_scenario_id = Some ''sc1'', s_ended_at = None, s_status = ''active''\<rparr>"

definition example_store :: store where
  "example_store =
     \<lparr>session_table =
        [example_session, example_session2],
      scenario_table = [example_scenario],
      message_table =
        [\<lparr>m_session_id = Some ''s1'', m_role = ''user'', m_content = ''Hello'', m_created_at = 20\<rparr>,
         \<lparr>m_session_id = Some ''s2'', m_role = ''user'', m_content = ''Other'', m_created_at = 15\<rparr>,
         \<lparr>m_session_id = Some ''s1'', m_role = ''assistant'', m_content = ''Welcome'', m_created_at = 10\<rparr>],
      feedback_table = [],
      feedback_id_seq = 0\<rparr>"

definition example_state :: state where
  "example_state = \<lparr>db = example_store, trace = []\<rparr>"

text \<open>The messages of the first example session, oldest first.\<close>

definition example_history :: "message_row list" where
  "example_history =
     [\<lparr>m_session_id = Some ''s1'', m_role = ''assistant'', m_content = ''Welcome'', m_created_at = 10\<rparr>,
      \<lparr>m_session_id = Some ''s1'', m_role = ''user'', m_content = ''Hello'', m_created_at = 20\<rparr>]"

text \<open>An environment whose model answers every request with the given outcome.\<close>

definition example_env :: "upstream \<Rightarrow> env" where
  "example_env u =
     \<lparr>OPENAI_API_KEY = Some ''sk-test'',
      completion = (\<lambda>rq. u),
      store_fault = (\<lambda>op. None),
      now = 100,
      db_now = 101,
      syntax_error_message = (\<lambda>t. ''Unexpected token''),
      type_error_message = (\<lambda>k. ''Cannot read properties of null''),
      not_null_message = (\<lambda>c. ''violates not-null constraint''),
      foreign_key_message = (\<lambda>c. ''violates foreign key constraint'')\<rparr>"

text \<open>The same with one store call that fails.\<close>

definition fault_env :: "store_op \<Rightarrow> upstream \<Rightarrow> env" where
  "fault_env failing u =
     (example_env u)\<lparr>store_fault := (\<lambda>op. if op = failing then Some ''connection lost'' else None)\<rparr>"

definition chat_post :: "string \<Rightarrow> string \<Rightarrow> bool option \<Rightarrow> ChatRequest request" where
  "chat_post sid msg initial =
     \<lparr>req_method = ''POST'',
      payload = Parsed \<lparr>session_id = sid, user_message = msg, is_initial = initial\<rparr>\<rparr>"

definition feedback_post :: "string \<Rightarrow> FeedbackRequest request" where
  "feedback_post sid = \<lparr>req_method = ''POST'', payload = Parsed \<lparr>fr_session_id = sid\<rparr>\<rparr>"

text \<open>The payload of the round-trip property; the bullet is U+2022, three bytes.\<close>

definition bullet :: string where
  "bullet = [CHR 0xE2, CHR 0x80, CHR 0xA2]"

text \<open>The output token limits of the model calls in a list of effects.\<close>

definition api_max_tokens :: "effect list \<Rightarrow> nat list" where
  "api_max_tokens xs = concat (map (\<lambda>x. case x of ApiCall rq \<Rightarrow> [max_tokens rq] | _ \<Rightarrow> []) xs)"

text \<open>A model answer that is JSON and has no score members.\<close>

definition scoreless_payload :: string where
  \<open>scoreless_payload = ''{"summary":"ok","recommendations":"r"}''\<close>

definition roundtrip_payload :: string where
  \<open>roundtrip_payload =
     ''{"summary":"ok","clarity":4,"empathy":3,"assertiveness":5,"recommendations":"''
     @ bullet @ '' a'' @ [CHR 0x5C] @ ''n''
     @ bullet @ '' b'' @ [CHR 0x5C] @ ''n''
     @ bullet @ '' c"}''\<close>

definition roundtrip_recommendations :: string where
  "roundtrip_recommendations = bullet @ '' a\<newline>'' @ bullet @ '' b\<newline>'' @ bullet @ '' c''"

text \<open>The value \<^verbatim>\<open>JSON.parse\<close> gives for that payload.\<close>

definition roundtrip_json :: json where
  "roundtrip_json =
     JObject [(''summary'', JString ''ok''), (''clarity'', JNumber 4), (''empathy'', JNumber 3),
              (''assertiveness'', JNumber 5),
              (''recommendations'', JString roundtrip_recommendations)]"

text \<open>The same answer with commentary in front of the JSON object.\<close>

definition commentary_payload :: string where
  "commentary_payload = ''Here is the evaluation: '' @ roundtrip_payload"

section \<open>Facts about the number model\<close>

text \<open>
  \<open>floor_log2\<close> is the binary exponent of a positive rational; from this, a literal of
  \<open>2 ^ 1024\<close> or more is parsed to an infinite number, and an integer of at most 53 bits
  is parsed to itself.
\<close>

lemma pow2_powi: "pow2 k = 2 powi k"
  by (simp add: pow2_def power_int_def inverse_eq_divide power_one_over)

lemma pow2_pos: "0 < pow2 k"
  by (simp add: pow2_powi)

lemma pow2_add: "pow2 (i + j) = pow2 i * pow2 j"
  by (simp add: pow2_powi power_int_add)

lemma pow2_mono: "i \<le> j \<Longrightarrow> pow2 i \<le> pow2 j"
  by (simp add: pow2_powi power_int_increasing)

lemma pow2_less_imp: "pow2 i < pow2 j \<Longrightarrow> i < j"
  using pow2_mono[of j i] by (cases "i < j") auto

lemma pow2_nat: "pow2 (int n) = 2 ^ n"
  by (simp add: pow2_def)

lemma literal_1e400: "literal_value ''1e400'' = Some (10 ^ 400)"
  by (simp add: literal_value_def fraction_def exponent_def is_digit_def code_def digits_value_def scale10_def)

lemma floor_log2_bounds:
  assumes "0 < q"
  shows "pow2 (floor_log2 q) \<le> q \<and> q < pow2 (floor_log2 q + 1)"
proof -
  obtain a b where ab: "quotient_of q = (a, b)" by (cases "quotient_of q")
  have b: "0 < b" using ab by (rule quotient_of_denom_pos)
  have q: "q = of_int a / of_int b" using ab by (rule quotient_of_div)
  have a: "0 < a" using assms b q by (simp add: zero_less_divide_iff)
  let ?la = "bitlen a" and ?lb = "bitlen b"
  have la: "2 ^ nat (?la - 1) \<le> a" "a < 2 ^ nat ?la" using bitlen_bounds[OF a] by auto
  have lb: "2 ^ nat (?lb - 1) \<le> b" "b < 2 ^ nat ?lb" using bitlen_bounds[OF b] by auto
  have la1: "1 \<le> ?la" using a by (simp add: bitlen_alt_def)
  have lb1: "1 \<le> ?lb" using b by (simp add: bitlen_alt_def)
  have A1: "pow2 (?la - 1) \<le> of_int a"
  proof -
    have "pow2 (?la - 1) = of_int (2 ^ nat (?la - 1))" using la1 by (simp add: pow2_def)
    also have "\<dots> \<le> of_int a" using la(1) by (simp only: of_int_le_iff)
    finally show ?thesis .
  qed
  have A2: "of_int a < pow2 ?la"
  proof -
    have "(of_int a :: rat) < of_int (2 ^ nat ?la)" using la(2) by (simp only: of_int_less_iff)
    also have "\<dots> = pow2 ?la" using la1 by (simp add: pow2_def)
    finally show ?thesis .
  qed
  have B1: "pow2 (?lb - 1) \<le> of_int b"
  proof -
    have "pow2 (?lb - 1) = of_int (2 ^ nat (?lb - 1))" using lb1 by (simp add: pow2_def)
    also have "\<dots> \<le> of_int b" using lb(1) by (simp only: of_int_le_iff)
    finally show ?thesis .
  qed
  have B2: "of_int b < pow2 ?lb"
  proof -
    have "(of_int b :: rat) < of_int (2 ^ nat ?lb)" using lb(2) by (simp only: of_int_less_iff)
    also have "\<dots> = pow2 ?lb" using lb1 by (simp add: pow2_def)
    finally show ?thesis .
  qed
  have bq: "(0::rat) < of_int b" using b by simp
  have upper: "q < pow2 (?la - ?lb + 1)"
  proof -
    have "of_int a < pow2 ?la" by (rule A2)
    also have "pow2 ?la = pow2 (?la - ?lb + 1) * pow2 (?lb - 1)"
      by (simp add: pow2_add[symmetric])
    also have "\<dots> \<le> pow2 (?la - ?lb + 1) * of_int b"
      using B1 pow2_pos[of "?la - ?lb + 1"] by (simp add: mult_left_mono)
    finally show ?thesis using bq by (simp add: q pos_divide_less_eq)
  qed
  have lower: "pow2 (?la - ?lb - 1) < q"
  proof -
    have "pow2 (?la - ?lb - 1) * of_int b < pow2 (?la - ?lb - 1) * pow2 ?lb"
      using B2 pow2_pos[of "?la - ?lb - 1"] by (simp add: mult_strict_left_mono)
    also have "\<dots> = pow2 (?la - 1)" by (simp add: pow2_add[symmetric])
    also have "\<dots> \<le> of_int a" by (rule A1)
    finally show ?thesis using bq by (simp add: q pos_less_divide_eq)
  qed
  show ?thesis
    using upper lower by (auto simp add: floor_log2_def ab Let_def not_le)
qed


lemma round_half_even_int: "round_half_even (of_int m) = m"
  by (simp add: round_half_even_def)

lemma round_half_even_ge: "of_int n \<le> q \<Longrightarrow> n \<le> round_half_even q"
proof -
  assume "of_int n \<le> q"
  then have "n \<le> \<lfloor>q\<rfloor>" by (simp add: le_floor_iff)
  then show ?thesis by (auto simp add: round_half_even_def Let_def)
qed

lemma floor_log2_ge: "0 < q \<Longrightarrow> pow2 k \<le> q \<Longrightarrow> k \<le> floor_log2 q"
proof -
  assume "0 < q" and "pow2 k \<le> q"
  then have "pow2 k < pow2 (floor_log2 q + 1)" using floor_log2_bounds[of q] by simp
  then show ?thesis using pow2_less_imp by fastforce
qed

lemma floor_log2_le: "0 < q \<Longrightarrow> q < pow2 (k + 1) \<Longrightarrow> floor_log2 q \<le> k"
proof -
  assume "0 < q" and "q < pow2 (k + 1)"
  then have "pow2 (floor_log2 q) < pow2 (k + 1)" using floor_log2_bounds[of q] by simp
  then show ?thesis using pow2_less_imp by fastforce
qed

text \<open>A value of \<open>2 ^ 1024\<close> or more becomes infinite.\<close>

lemma double_of_overflow:
  assumes "pow2 1024 \<le> \<bar>q\<bar>"
  shows "double_of q = JInfinity (q < 0)"
proof -
  let ?a = "\<bar>q\<bar>"
  let ?e0 = "floor_log2 ?a"
  let ?ex = "max (?e0 - 52) (- 1074)"
  let ?m = "round_half_even (?a / pow2 ?ex)"
  let ?v = "of_int ?m * pow2 ?ex"
  have pos: "0 < ?a" using assms pow2_pos[of 1024] by linarith
  have q0: "q \<noteq> 0" using pos by auto
  have e0: "1024 \<le> ?e0" using floor_log2_ge[OF pos assms] .
  have ex: "?ex = ?e0 - 52" using e0 by simp
  have "pow2 52 * pow2 (?e0 - 52) = pow2 ?e0" by (simp add: pow2_add[symmetric])
  also have "\<dots> \<le> ?a" using floor_log2_bounds[OF pos] by simp
  finally have "pow2 52 \<le> ?a / pow2 (?e0 - 52)"
    using pow2_pos[of "?e0 - 52"] by (simp add: pos_le_divide_eq)
  then have "of_int (2 ^ 52) \<le> ?a / pow2 (?e0 - 52)"
    using pow2_nat[of 52] by simp
  then have m: "2 ^ 52 \<le> ?m" unfolding ex by (rule round_half_even_ge)
  have "pow2 ?e0 = pow2 52 * pow2 (?e0 - 52)" by (simp add: pow2_add[symmetric])
  also have "\<dots> = of_int (2 ^ 52) * pow2 (?e0 - 52)" using pow2_nat[of 52] by simp
  also have "\<dots> \<le> of_int ?m * pow2 (?e0 - 52)"
    using m pow2_pos[of "?e0 - 52"] by (simp only: mult_le_cancel_right_pos of_int_le_iff)
  finally have v: "pow2 ?e0 \<le> ?v" unfolding ex .
  have "pow2 1024 \<le> pow2 ?e0" using e0 by (rule pow2_mono)
  with v have v1024: "pow2 1024 \<le> ?v" by simp
  then have "0 < ?v" using pow2_pos[of 1024] by linarith
  then have "1024 \<le> floor_log2 ?v" using v1024 by (rule floor_log2_ge)
  then show ?thesis using q0 by (simp add: double_of_def Let_def)
qed


text \<open>An integer of at most 53 bits is its own double.\<close>

lemma double_of_nat_exact:
  assumes "0 < n" and "n \<le> 2 ^ 53"
  shows "double_of (of_int n) = JNumber (of_int n)"
    and "double_of (- of_int n) = JNumber (- of_int n)"
proof -
  let ?q = "of_int n :: rat"
  let ?e0 = "floor_log2 ?q"
  let ?ex = "max (?e0 - 52) (- 1074)"
  have pos: "0 < ?q" using assms(1) by simp
  have "pow2 0 \<le> ?q" using assms(1) by (simp add: pow2_def)
  then have e0_ge: "0 \<le> ?e0" using pos by (rule floor_log2_ge[rotated])
  have "?q \<le> of_int (2 ^ 53)" using assms(2) by (simp only: of_int_le_iff)
  also have "\<dots> < pow2 54" by (simp add: pow2_def)
  finally have e0_le: "?e0 \<le> 53" using floor_log2_le[OF pos, of 53] by simp
  have ex: "?ex = ?e0 - 52" using e0_ge by simp
  have r: "of_int (round_half_even (?q / pow2 ?ex)) * pow2 ?ex = ?q"
  proof (cases "?e0 \<le> 52")
    case True
    let ?k = "nat (52 - ?e0)"
    have p: "pow2 (?e0 - 52) = 1 / 2 ^ ?k"
      using True by (auto simp add: pow2_def)
    have "?q / pow2 (?e0 - 52) = of_int (n * 2 ^ ?k)" by (simp add: p)
    then have "round_half_even (?q / pow2 (?e0 - 52)) = n * 2 ^ ?k"
      by (simp only: round_half_even_int)
    then show ?thesis by (simp add: ex p)
  next
    case False
    then have e53: "?e0 = 53" using e0_le by simp
    have "pow2 53 \<le> ?q" using floor_log2_bounds[OF pos] e53 by simp
    then have "of_int (2 ^ 53) \<le> ?q" by (simp add: pow2_def)
    then have "2 ^ 53 \<le> n" by (simp only: of_int_le_iff)
    then have n: "n = 2 ^ 53" using assms(2) by simp
    have ex1: "?ex = 1" using ex e53 by simp
    have "?q / pow2 1 = of_int (2 ^ 52)" by (simp add: n pow2_def)
    then have rr: "round_half_even (?q / pow2 1) = 2 ^ 52" by (simp only: round_half_even_int)
    have "of_int (round_half_even (?q / pow2 ?ex)) * pow2 ?ex = of_int (2 ^ 52) * pow2 1"
      by (simp only: ex1 rr)
    also have "\<dots> = of_int (2 ^ 53)" by (simp add: pow2_def)
    also have "\<dots> = ?q" by (simp only: n)
    finally show ?thesis .
  qed
  have fin: "\<not> 1024 \<le> floor_log2 ?q" using e0_le by simp
  have nz: "?q \<noteq> 0" using assms(1) by simp
  show "double_of (of_int n) = JNumber (of_int n)"
    using nz fin r assms(1) by (simp add: double_of_def Let_def)
  have "\<bar>- ?q\<bar> = ?q" using assms(1) by simp
  then show "double_of (- of_int n) = JNumber (- of_int n)"
    using nz fin r assms(1) by (simp add: double_of_def Let_def)
qed

lemma parse_number_overflow: "parse_number ''1e400'' = Some (JInfinity False)"
proof -
  have "pow2 1024 \<le> \<bar>10 ^ 400\<bar>" by (simp add: pow2_def)
  then have "double_of (10 ^ 400) = JInfinity False"
    using double_of_overflow[of "10 ^ 400"] by simp
  then show ?thesis by (simp add: parse_number_def literal_1e400)
qed

text \<open>Two literals that are not doubles are rounded to the nearest double.\<close>

lemma JSON_parse_rounds:
  "JSON_parse ''0.1'' = Some (JNumber (3602879701896397 / 36028797018963968))
   \<and> JSON_parse ''9007199254740993'' = Some (JNumber 9007199254740992)"
  by code_simp

section \<open>Facts about the store calls\<close>

lemma db_emit: "db (emit x st) = db st"
  by (simp add: emit_def)

lemma trace_emit: "trace (emit x st) = trace st @ [x]"
  by (simp add: emit_def)

lemma new_effects_trace: "trace st' = trace st @ xs \<Longrightarrow> new_effects st st' = xs"
  by (simp add: new_effects_def)

lemma new_effects_self: "new_effects st st = []"
  by (simp add: new_effects_def)

lemma select_session_state: "snd (select_session e st sid) = emit (StoreCall SelectSession) st"
  by (simp add: select_session_def Let_def split: option.splits list.splits)

lemma select_messages_state: "snd (select_messages e st sid) = emit (StoreCall SelectMessages) st"
  by (simp add: select_messages_def Let_def split: option.splits)

lemma select_session_none:
  "session_rows (db st) sid = [] \<Longrightarrow> fst (select_session e st sid) = None"
  by (simp add: select_session_def session_rows_def Let_def split: option.splits)

lemma select_session_some:
  "store_fault e SelectSession = None \<Longrightarrow> session_rows (db st) sid = [s] \<Longrightarrow>
     fst (select_session e st sid) = Some (s, embed_scenario (db st) s)"
  by (simp add: select_session_def session_rows_def Let_def)

lemma select_session_someD:
  "fst (select_session e st sid) = Some (s, sc) \<Longrightarrow>
     session_rows (db st) sid = [s] \<and> embed_scenario (db st) s = sc"
  by (auto simp add: select_session_def session_rows_def Let_def split: option.splits list.splits)

lemma select_messages_result:
  "fst (select_messages e st sid) =
     (case store_fault e SelectMessages of
        Some m \<Rightarrow> None
      | None \<Rightarrow> Some (sort_key m_created_at (session_messages (db st) sid)))"
  by (simp add: select_messages_def session_messages_def Let_def split: option.splits)

lemma select_messages_someD:
  "fst (select_messages e st sid) = Some ms \<Longrightarrow>
     store_fault e SelectMessages = None \<and> ms = sort_key m_created_at (session_messages (db st) sid)"
  by (simp add: select_messages_result split: option.splits)

lemma insert_feedback_run:
  "(\<exists>m. insert_feedback e st v = (Inl m, emit (StoreCall InsertFeedback) st) \<and> insert_error e m)
   \<or> (\<exists>row. insert_feedback e st v =
          (Inr row, (emit (StoreCall InsertFeedback) st)
             \<lparr>db := (db st)\<lparr>feedback_table := feedback_table (db st) @ [row],
                            feedback_id_seq := Suc (feedback_id_seq (db st))\<rparr>\<rparr>)
        \<and> store_fault e InsertFeedback = None
        \<and> f_scores row = i_scores (wire_body v) \<and> f_session_id row = Some (i_session_id v)
        \<and> i_summary (wire_body v) = Some (f_summary row) \<and> f_summary row \<noteq> JNull
        \<and> i_recommendations (wire_body v) = Some (f_recommendations row)
        \<and> f_recommendations row \<noteq> JNull)"
  by (auto simp add: insert_feedback_def insert_error_def sql_value_def Let_def wire_body_def
        split: option.splits if_splits)

lemma update_session_trace: "trace (update_session e st sid) = trace st @ [StoreCall UpdateSession]"
  by (simp add: update_session_def Let_def trace_emit split: option.splits)

lemma update_session_tables:
  "feedback_table (db (update_session e st sid)) = feedback_table (db st)
   \<and> message_table (db (update_session e st sid)) = message_table (db st)
   \<and> scenario_table (db (update_session e st sid)) = scenario_table (db st)"
  by (simp add: update_session_def Let_def db_emit split: option.splits)

lemma update_session_rows:
  "session_table (db (update_session e st sid)) =
     (case store_fault e UpdateSession of
        Some m \<Rightarrow> session_table (db st)
      | None \<Rightarrow> map (\<lambda>s. if s_id s = sid then complete_session (now e) s else s)
                  (session_table (db st)))"
  by (simp add: update_session_def Let_def db_emit split: option.splits)

section \<open>Runs of the conversation orchestrator\<close>

lemma chat_try_db: "db (snd (chat_try e st req)) = db st"
  by (simp add: chat_try_def Let_def split_beta select_session_state select_messages_state db_emit
        split: parsed.splits option.splits upstream.splits)

lemma chat_try_effects:
  "\<exists>xs. trace (snd (chat_try e st req)) = trace st @ xs \<and>
     StoreCall InsertFeedback \<notin> set xs \<and> StoreCall UpdateSession \<notin> set xs"
  by (simp add: chat_try_def Let_def split_beta select_session_state select_messages_state
        trace_emit split: parsed.splits option.splits upstream.splits)

lemma chat_try_reply:
  "fst (chat_try e st req) = Inr r \<Longrightarrow>
     \<exists>rq t. ApiCall rq \<in> set (new_effects st (snd (chat_try e st req))) \<and>
        completion e rq = Completion t \<and> body r = MessageBody t \<and> status r = 200"
  by (auto simp add: chat_try_def Let_def split_beta select_session_state select_messages_state
        trace_emit new_effects_def split: parsed.splits option.splits upstream.splits if_splits)

lemma chat_try_headers:
  "fst (chat_try e st req) = Inr r \<Longrightarrow>
     headers r = chat_corsHeaders @ [(''Content-Type'', ''application/json'')]"
  by (auto simp add: chat_try_def Let_def split_beta
        split: parsed.splits option.splits if_splits upstream.splits)

text \<open>The runs that stop before the model is called, and the others.\<close>

lemma chat_try_run:
  "(\<exists>err st'. chat_try e st req = (Inl err, st') \<and> db st' = db st
       \<and> (new_effects st st' = [] \<or> new_effects st st' = [StoreCall SelectSession]
          \<or> new_effects st st' = [StoreCall SelectSession, StoreCall SelectMessages]))
   \<or> (\<exists>b s sc res. configured e \<and> payload req = Parsed b
       \<and> fst (select_session e st (session_id b)) = Some (s, Some sc)
       \<and> chat_try e st req =
           (res, emit (ApiCall (chat_completion_request sc
                   (case fst (select_messages e (emit (StoreCall SelectSession) st) (session_id b)) of
                      None \<Rightarrow> [] | Some ms \<Rightarrow> ms) b))
                  (emit (StoreCall SelectMessages) (emit (StoreCall SelectSession) st))))"
  by (auto simp add: chat_try_def configured_def split_beta select_session_state Let_def
        select_messages_state new_effects_def trace_emit db_emit
        split: parsed.splits option.splits upstream.splits)

section \<open>Runs of the feedback orchestrator\<close>

lemma feedback_values_error: "feedback_values e sid j = Inl err \<Longrightarrow> \<exists>m. err = TypeError m"
  by (cases j) (auto simp add: feedback_values_def split: sum.splits)

lemma feedback_persist_cases [case_names unparsed null_value insert_failed ok]:
  obtains
    (unparsed) "JSON_parse (ToString t) = None"
      "feedback_persist e st sid t = (Inl (SyntaxError (syntax_error_message e (ToString t))), st)"
  | (null_value) j m where "JSON_parse (ToString t) = Some j"
      "feedback_persist e st sid t = (Inl (TypeError m), st)"
  | (insert_failed) j v m where "JSON_parse (ToString t) = Some j"
      "feedback_values e sid j = Inr v" "insert_error e m"
      "feedback_persist e st sid t = (Inl (PostgrestError m), emit (StoreCall InsertFeedback) st)"
  | (ok) j v row where "JSON_parse (ToString t) = Some j" "feedback_values e sid j = Inr v"
      "store_fault e InsertFeedback = None"
      "f_scores row = i_scores (wire_body v)" "f_session_id row = Some (i_session_id v)"
      "i_summary (wire_body v) = Some (f_summary row)" "f_summary row \<noteq> JNull"
      "i_recommendations (wire_body v) = Some (f_recommendations row)"
      "f_recommendations row \<noteq> JNull"
      "feedback_persist e st sid t =
          (Inr \<lparr>status = 200,
                headers = feedback_corsHeaders @ [(''Content-Type'', ''application/json'')],
                body = FeedbackBody row\<rparr>,
           update_session e
             ((emit (StoreCall InsertFeedback) st)
                \<lparr>db := (db st)\<lparr>feedback_table := feedback_table (db st) @ [row],
                               feedback_id_seq := Suc (feedback_id_seq (db st))\<rparr>\<rparr>) sid)"
proof (cases "JSON_parse (ToString t)")
  case None
  then show thesis by (intro unparsed) (simp_all add: feedback_persist_def)
next
  case (Some j)
  show thesis
  proof (cases "feedback_values e sid j")
    case (Inl err)
    then obtain m where "err = TypeError m" using feedback_values_error by blast
    with Some Inl show thesis by (intro null_value[of j m]) (simp_all add: feedback_persist_def)
  next
    case (Inr v)
    from insert_feedback_run[of e st v] show thesis
    proof (elim disjE exE conjE)
      fix m
      assume "insert_feedback e st v = (Inl m, emit (StoreCall InsertFeedback) st)"
        and "insert_error e m"
      with Some Inr show thesis
        by (intro insert_failed[of j v m]) (simp_all add: feedback_persist_def)
    next
      fix row
      assume "insert_feedback e st v =
          (Inr row, (emit (StoreCall InsertFeedback) st)
             \<lparr>db := (db st)\<lparr>feedback_table := feedback_table (db st) @ [row],
                            feedback_id_seq := Suc (feedback_id_seq (db st))\<rparr>\<rparr>)"
        and "store_fault e InsertFeedback = None"
        and "f_scores row = i_scores (wire_body v)" and "f_session_id row = Some (i_session_id v)"
        and "i_summary (wire_body v) = Some (f_summary row)" and "f_summary row \<noteq> JNull"
        and "i_recommendations (wire_body v) = Some (f_recommendations row)"
        and "f_recommendations row \<noteq> JNull"
      with Some Inr show thesis by (intro ok[of j v row]) (simp_all add: feedback_persist_def)
    qed
  qed
qed

lemma feedback_evaluate_run:
  "(\<exists>err. feedback_evaluate e st sid sc ms =
        (Inl err, emit (ApiCall (feedback_completion_request sc ms)) st)
      \<and> (\<forall>t. completion e (feedback_completion_request sc ms) \<noteq> Completion t))
   \<or> (\<exists>t. completion e (feedback_completion_request sc ms) = Completion t
      \<and> feedback_evaluate e st sid sc ms =
          feedback_persist e (emit (ApiCall (feedback_completion_request sc ms)) st) sid t)"
  by (cases "completion e (feedback_completion_request sc ms)")
     (simp_all add: feedback_evaluate_def Let_def)

lemma feedback_try_run:
  "(\<exists>err st'. feedback_try e st req = (Inl err, st') \<and> db st' = db st
       \<and> (new_effects st st' = [] \<or> new_effects st st' = [StoreCall SelectSession]
          \<or> new_effects st st' = [StoreCall SelectSession, StoreCall SelectMessages]))
   \<or> (\<exists>b s sc ms. configured e \<and> payload req = Parsed b
       \<and> fst (select_session e st (fr_session_id b)) = Some (s, Some sc)
       \<and> fst (select_messages e (emit (StoreCall SelectSession) st) (fr_session_id b)) = Some ms
       \<and> 2 \<le> length ms
       \<and> feedback_try e st req =
           feedback_evaluate e (emit (StoreCall SelectMessages) (emit (StoreCall SelectSession) st))
             (fr_session_id b) sc ms)"
  by (auto simp add: feedback_try_def configured_def split_beta select_session_state
        select_messages_state new_effects_def trace_emit db_emit
        split: parsed.splits option.splits)

lemma options_run:
  "req_method req = ''OPTIONS'' \<Longrightarrow>
     feedback_handler e st req =
       (\<lparr>status = 200, headers = feedback_corsHeaders, body = NoBody\<rparr>, st)"
  by (simp add: feedback_handler_def)

text \<open>Every run that is not a preflight request is of one of six kinds.\<close>

lemma feedback_handler_cases [consumes 1, case_names early upstream unparsed null_value insert_failed ok]:
  assumes "req_method req \<noteq> ''OPTIONS''"
  obtains
    (early) err st' where
      "feedback_handler e st req = (feedback_catch err, st')" "db st' = db st"
      "new_effects st st' = [] \<or> new_effects st st' = [StoreCall SelectSession]
          \<or> new_effects st st' = [StoreCall SelectSession, StoreCall SelectMessages]"
  | (upstream) b s sc ms err st' where
      "configured e" "payload req = Parsed b"
      "session_rows (db st) (fr_session_id b) = [s]" "embed_scenario (db st) s = Some sc"
      "store_fault e SelectMessages = None"
      "ms = sort_key m_created_at (session_messages (db st) (fr_session_id b))" "2 \<le> length ms"
      "\<forall>t. completion e (feedback_completion_request sc ms) \<noteq> Completion t"
      "feedback_handler e st req = (feedback_catch err, st')" "db st' = db st"
      "new_effects st st' = [StoreCall SelectSession, StoreCall SelectMessages,
                              ApiCall (feedback_completion_request sc ms)]"
  | (unparsed) b s sc ms t st' where
      "configured e" "payload req = Parsed b"
      "session_rows (db st) (fr_session_id b) = [s]" "embed_scenario (db st) s = Some sc"
      "store_fault e SelectMessages = None"
      "ms = sort_key m_created_at (session_messages (db st) (fr_session_id b))" "2 \<le> length ms"
      "completion e (feedback_completion_request sc ms) = Completion t"
      "JSON_parse (ToString t) = None"
      "feedback_handler e st req =
         (feedback_catch (SyntaxError (syntax_error_message e (ToString t))), st')"
      "db st' = db st"
      "new_effects st st' = [StoreCall SelectSession, StoreCall SelectMessages,
                              ApiCall (feedback_completion_request sc ms)]"
  | (null_value) b s sc ms t j m st' where
      "configured e" "payload req = Parsed b"
      "session_rows (db st) (fr_session_id b) = [s]" "embed_scenario (db st) s = Some sc"
      "store_fault e SelectMessages = None"
      "ms = sort_key m_created_at (session_messages (db st) (fr_session_id b))" "2 \<le> length ms"
      "completion e (feedback_completion_request sc ms) = Completion t"
      "JSON_parse (ToString t) = Some j"
      "feedback_handler e st req = (feedback_catch (TypeError m), st')"
      "db st' = db st"
      "new_effects st st' = [StoreCall SelectSession, StoreCall SelectMessages,
                              ApiCall (feedback_completion_request sc ms)]"
  | (insert_failed) b s sc ms t j v m st' where
      "configured e" "payload req = Parsed b"
      "session_rows (db st) (fr_session_id b) = [s]" "embed_scenario (db st) s = Some sc"
      "store_fault e SelectMessages = None"
      "ms = sort_key m_created_at (session_messages (db st) (fr_session_id b))" "2 \<le> length ms"
      "completion e (feedback_completion_request sc ms) = Completion t"
      "JSON_parse (ToString t) = Some j" "feedback_values e (fr_session_id b) j = Inr v"
      "insert_error e m"
      "feedback_handler e st req = (feedback_catch (PostgrestError m), st')"
      "db st' = db st"
      "new_effects st st' = [StoreCall SelectSession, StoreCall SelectMessages,
                              ApiCall (feedback_completion_request sc ms), StoreCall InsertFeedback]"
  | (ok) b s sc ms t j v row st' where
      "configured e" "payload req = Parsed b"
      "session_rows (db st) (fr_session_id b) = [s]" "embed_scenario (db st) s = Some sc"
      "store_fault e SelectMessages = None"
      "ms = sort_key m_created_at (session_messages (db st) (fr_session_id b))" "2 \<le> length ms"
      "completion e (feedback_completion_request sc ms) = Completion t"
      "JSON_parse (ToString t) = Some j" "feedback_values e (fr_session_id b) j = Inr v"
      "store_fault e InsertFeedback = None"
      "f_scores row = i_scores (wire_body v) \<and> f_session_id row = Some (fr_session_id b)
         \<and> i_summary (wire_body v) = Some (f_summary row) \<and> f_summary row \<noteq> JNull
         \<and> i_recommendations (wire_body v) = Some (f_recommendations row)
         \<and> f_recommendations row \<noteq> JNull"
      "feedback_handler e st req =
         (\<lparr>status = 200,
           headers = feedback_corsHeaders @ [(''Content-Type'', ''application/json'')],
           body = FeedbackBody row\<rparr>, st')"
      "feedback_table (db st') = feedback_table (db st) @ [row]"
      "message_table (db st') = message_table (db st)"
      "session_table (db st') =
         (case store_fault e UpdateSession of
            Some m \<Rightarrow> session_table (db st)
          | None \<Rightarrow> map (\<lambda>x. if s_id x = fr_session_id b then complete_session (now e) x else x)
                      (session_table (db st)))"
      "new_effects st st' = [StoreCall SelectSession, StoreCall SelectMessages,
                              ApiCall (feedback_completion_request sc ms),
                              StoreCall InsertFeedback, StoreCall UpdateSession]"
proof -
  consider (stop) err st' where "feedback_try e st req = (Inl err, st')" "db st' = db st"
      "new_effects st st' = [] \<or> new_effects st st' = [StoreCall SelectSession]
          \<or> new_effects st st' = [StoreCall SelectSession, StoreCall SelectMessages]"
    | (late) b s sc ms where "configured e" "payload req = Parsed b"
      "fst (select_session e st (fr_session_id b)) = Some (s, Some sc)"
      "fst (select_messages e (emit (StoreCall SelectSession) st) (fr_session_id b)) = Some ms"
      "2 \<le> length ms"
      "feedback_try e st req =
         feedback_evaluate e (emit (StoreCall SelectMessages) (emit (StoreCall SelectSession) st))
           (fr_session_id b) sc ms"
    using feedback_try_run[of e st req] by blast
  then show thesis
  proof cases
    case stop
    then show thesis using assms early by (simp add: feedback_handler_def)
  next
    case a: late
    let ?sid = "fr_session_id b"
    let ?st2 = "emit (StoreCall SelectMessages) (emit (StoreCall SelectSession) st)"
    let ?rq = "feedback_completion_request sc ms"
    let ?st3 = "emit (ApiCall ?rq) ?st2"
    have db3: "db ?st3 = db st" by (simp add: db_emit)
    have tr3: "trace ?st3 = trace st @ [StoreCall SelectSession, StoreCall SelectMessages, ApiCall ?rq]"
      by (simp add: trace_emit)
    have ne3: "new_effects st ?st3 = [StoreCall SelectSession, StoreCall SelectMessages, ApiCall ?rq]"
      using tr3 by (rule new_effects_trace)
    have sess: "session_rows (db st) ?sid = [s]" "embed_scenario (db st) s = Some sc"
      using select_session_someD[OF a(3)] by simp_all
    have msgs: "store_fault e SelectMessages = None"
      "ms = sort_key m_created_at (session_messages (db st) ?sid)"
      using select_messages_someD[OF a(4)] by (simp_all add: db_emit)
    have h: "feedback_handler e st req =
      (case feedback_evaluate e ?st2 ?sid sc ms of
         (Inl err, st') \<Rightarrow> (feedback_catch err, st') | (Inr r, st') \<Rightarrow> (r, st'))"
      using assms a(6) by (simp add: feedback_handler_def)
    consider (fail) err where "feedback_evaluate e ?st2 ?sid sc ms = (Inl err, ?st3)"
        "\<forall>t. completion e ?rq \<noteq> Completion t"
      | (answer) t where "completion e ?rq = Completion t"
        "feedback_evaluate e ?st2 ?sid sc ms = feedback_persist e ?st3 ?sid t"
      using feedback_evaluate_run[of e ?st2 ?sid sc ms] by auto
    then show thesis
    proof cases
      case fail
      show thesis
        by (rule upstream[OF a(1,2) sess msgs a(5) fail(2) _ db3 ne3]) (simp add: h fail(1))
    next
      case answer
      show thesis
      proof (cases rule: feedback_persist_cases[where t=t and e=e and st="?st3" and sid="?sid"])
        case p1: unparsed
        show thesis
          by (rule unparsed[OF a(1,2) sess msgs a(5) answer(1) p1(1) _ db3 ne3])
             (simp add: h answer(2) p1(2))
      next
        case p2: (null_value j m)
        show thesis
          by (rule null_value[OF a(1,2) sess msgs a(5) answer(1) p2(1) _ db3 ne3])
             (simp add: h answer(2) p2(2))
      next
        case p3: (insert_failed j v m)
        let ?st4 = "emit (StoreCall InsertFeedback) ?st3"
        have db4: "db ?st4 = db st" by (simp add: db_emit)
        have ne4: "new_effects st ?st4 = [StoreCall SelectSession, StoreCall SelectMessages,
                     ApiCall ?rq, StoreCall InsertFeedback]"
          by (rule new_effects_trace) (simp add: trace_emit)
        show thesis
          by (rule insert_failed[OF a(1,2) sess msgs a(5) answer(1) p3(1,2,3) _ db4 ne4])
             (simp add: h answer(2) p3(4))
      next
        case p4: (ok j v row)
        let ?st4 = "(emit (StoreCall InsertFeedback) ?st3)
                \<lparr>db := (db ?st3)\<lparr>feedback_table := feedback_table (db ?st3) @ [row],
                               feedback_id_seq := Suc (feedback_id_seq (db ?st3))\<rparr>\<rparr>"
        let ?st5 = "update_session e ?st4 ?sid"
        have sid: "i_session_id v = ?sid"
          using p4(2) by (auto simp add: feedback_values_def split: sum.splits)
        have row: "f_scores row = i_scores (wire_body v) \<and> f_session_id row = Some ?sid
         \<and> i_summary (wire_body v) = Some (f_summary row) \<and> f_summary row \<noteq> JNull
         \<and> i_recommendations (wire_body v) = Some (f_recommendations row)
         \<and> f_recommendations row \<noteq> JNull"
          using p4 sid by simp
        have ft: "feedback_table (db ?st5) = feedback_table (db st) @ [row]"
          by (simp add: update_session_tables db_emit)
        have mt: "message_table (db ?st5) = message_table (db st)"
          by (simp add: update_session_tables db_emit)
        have stb: "session_table (db ?st5) =
         (case store_fault e UpdateSession of
            Some m \<Rightarrow> session_table (db st)
          | None \<Rightarrow> map (\<lambda>x. if s_id x = ?sid then complete_session (now e) x else x)
                      (session_table (db st)))"
          by (simp add: update_session_rows db_emit split: option.splits)
        have ne5: "new_effects st ?st5 = [StoreCall SelectSession, StoreCall SelectMessages,
                     ApiCall ?rq, StoreCall InsertFeedback, StoreCall UpdateSession]"
          by (rule new_effects_trace) (simp add: update_session_trace trace_emit)
        show thesis
          by (rule ok[OF a(1,2) sess msgs a(5) answer(1) p4(1,2,3) row _ ft mt stb ne5])
             (simp add: h answer(2) p4(10))
      qed
    qed
  qed
qed

section \<open>Model calls, prompts and the round-trip payload\<close>

lemma chat_handler_api_call:
  assumes "ApiCall rq \<in> set (new_effects st (snd (chat_handler e st req)))"
  shows "\<exists>b s sc. payload req = Parsed b
       \<and> session_rows (db st) (session_id b) = [s] \<and> embed_scenario (db st) s = Some sc
       \<and> rq = chat_completion_request sc
                (case fst (select_messages e (emit (StoreCall SelectSession) st) (session_id b)) of
                   None \<Rightarrow> [] | Some ms \<Rightarrow> ms) b"
proof (cases "req_method req = ''OPTIONS''")
  case True
  then show ?thesis using assms by (simp add: chat_handler_def new_effects_self)
next
  case False
  have h: "snd (chat_handler e st req) = snd (chat_try e st req)"
    using False by (simp add: chat_handler_def split_beta split: sum.splits)
  consider (stop) err st' where "chat_try e st req = (Inl err, st')"
      "new_effects st st' = [] \<or> new_effects st st' = [StoreCall SelectSession]
          \<or> new_effects st st' = [StoreCall SelectSession, StoreCall SelectMessages]"
    | (late) b s sc res where "payload req = Parsed b"
       "fst (select_session e st (session_id b)) = Some (s, Some sc)"
       "chat_try e st req =
           (res, emit (ApiCall (chat_completion_request sc
                   (case fst (select_messages e (emit (StoreCall SelectSession) st) (session_id b)) of
                      None \<Rightarrow> [] | Some ms \<Rightarrow> ms) b))
                  (emit (StoreCall SelectMessages) (emit (StoreCall SelectSession) st)))"
    using chat_try_run[of e st req] by blast
  then show ?thesis
  proof cases
    case stop
    then show ?thesis using assms h by auto
  next
    case late
    have "new_effects st (snd (chat_try e st req)) =
        [StoreCall SelectSession, StoreCall SelectMessages,
         ApiCall (chat_completion_request sc
                   (case fst (select_messages e (emit (StoreCall SelectSession) st) (session_id b)) of
                      None \<Rightarrow> [] | Some ms \<Rightarrow> ms) b)]"
      by (rule new_effects_trace) (simp add: late(3) trace_emit)
    then show ?thesis
      using assms h late(1) select_session_someD[OF late(2)] by auto
  qed
qed

lemma feedback_handler_api_call:
  assumes "ApiCall rq \<in> set (new_effects st (snd (feedback_handler e st req)))"
  shows "\<exists>sc ms. rq = feedback_completion_request sc ms"
proof (cases "req_method req = ''OPTIONS''")
  case True
  then show ?thesis using assms by (simp add: options_run new_effects_self)
next
  case False
  then show ?thesis
    by (cases rule: feedback_handler_cases[where e=e and st=st]) (use assms in auto)
qed

lemma persona_in_prompt: "sublist (sc_ai_persona sc) (chat_systemPrompt sc i)"
proof -
  have "\<exists>ps ss. chat_systemPrompt sc i = ps @ sc_ai_persona sc @ ss"
    unfolding chat_systemPrompt_def append_assoc[symmetric]
    by (metis append_assoc)
  then show ?thesis by (simp add: sublist_def)
qed

lemma objective_in_prompt: "sublist (sc_objective sc) (chat_systemPrompt sc i)"
proof -
  have "\<exists>ps ss. chat_systemPrompt sc i = ps @ sc_objective sc @ ss"
    unfolding chat_systemPrompt_def append_assoc[symmetric]
    by (metis append_assoc)
  then show ?thesis by (simp add: sublist_def)
qed

lemma introduction_in_prompt:
  "truthy i \<Longrightarrow>
     suffix ''Start the conversation by introducing yourself and the scenario context.''
       (chat_systemPrompt sc i)"
  unfolding chat_systemPrompt_def append_assoc[symmetric]
  by (simp only: if_True suffix_def) blast

lemma session_row_exists:
  "session_rows d sid = [s] \<Longrightarrow> list_ex (\<lambda>x. s_id x = sid) (session_table d)"
proof -
  assume "session_rows d sid = [s]"
  then have "s \<in> set (filter (\<lambda>x. s_id x = sid) (session_table d))"
    by (simp add: session_rows_def)
  then show ?thesis by (auto simp add: list_ex_iff)
qed

lemma parse_roundtrip: "JSON_parse roundtrip_payload = Some roundtrip_json"
  by code_simp

text \<open>The parser on some texts that are JSON and some that are not.\<close>

lemma JSON_parse_accepts:
  \<open>JSON_parse '' [1, -2.5e2, 0.125, true, false, null, {"k": []}, {}, "x"] ''
     = Some (JArray [JNumber 1, JNumber (- 250), JNumber (1 / 8), JBool True, JBool False, JNull,
                     JObject [(''k'', JArray [])], JObject [], JString ''x''])
   \<and> JSON_parse ''{"a":1,"a":{"b":[2]}}''
       = Some (JObject [(''a'', JNumber 1), (''a'', JObject [(''b'', JArray [JNumber 2])])])
   \<and> JSON_parse ''4'' = Some (JNumber 4)
   \<and> JSON_parse ''null'' = Some JNull\<close>
  by code_simp

lemma JSON_parse_rejects:
  \<open>list_all (\<lambda>t. JSON_parse t = None)
     ['''', ''Sure! {"a":1}'', ''{"a":1} trailing'', ''[1,]'', ''{"a":1,}'', ''{"a" 1}'', ''{a:1}'',
      ''01'', ''1.'', ''.5'', ''1e'', ''+1'', ''-'', ''tru'', ''nulll'', ''"abc'', ''{'', ''[}'', ''1 2'',
      ''undefined'', ''[object Object]'']\<close>
  by code_simp

lemma feedback_persist_headers:
  "fst (feedback_persist e st sid t) = Inr r \<Longrightarrow>
     headers r = feedback_corsHeaders @ [(''Content-Type'', ''application/json'')]"
  by (auto simp add: feedback_persist_def Let_def split_beta split: option.splits sum.splits)

lemma feedback_evaluate_headers:
  "fst (feedback_evaluate e st sid sc ms) = Inr r \<Longrightarrow>
     headers r = feedback_corsHeaders @ [(''Content-Type'', ''application/json'')]"
  by (auto simp add: feedback_evaluate_def Let_def split: upstream.splits
        dest: feedback_persist_headers)

lemma feedback_try_headers:
  "fst (feedback_try e st req) = Inr r \<Longrightarrow>
     headers r = feedback_corsHeaders @ [(''Content-Type'', ''application/json'')]"
  by (auto simp add: feedback_try_def Let_def split_beta
        split: parsed.splits option.splits if_splits dest: feedback_evaluate_headers)

section \<open>The claims\<close>

subsection \<open>C1: scores and completion after a successful run\<close>

text \<open>
  C1. The claim: for every session with at least two messages, a successful run of the
  feedback orchestrator inserts exactly one feedback row whose scores object has the three
  members clarity, empathy and assertiveness, present and numeric, and leaves the session
  completed with an end time. The handler copies the three members of the parsed answer
  without looking at them, and it does not look at the result of the session update. At
  the example session with two messages: for a model answer that is JSON with a summary
  and recommendations and no scores, the run returns status 200 and the inserted row,
  whose scores object has no member; and when the session update fails, the run still
  returns status 200 and the session row stays active with no end time.
\<close>

theorem feedback_scores_unchecked:
  "fst (feedback_handler (example_env (Completion (Some scoreless_payload))) example_state
          (feedback_post ''s1''))
     = \<lparr>status = 200,
        headers = feedback_corsHeaders @ [(''Content-Type'', ''application/json'')],
        body = FeedbackBody
                 \<lparr>f_id = 1, f_session_id = Some ''s1'', f_summary = JString ''ok'',
                  f_scores = \<lparr>clarity = None, empathy = None, assertiveness = None\<rparr>,
                  f_recommendations = JString ''r'', f_created_at = 101\<rparr>\<rparr>
   \<and> length (session_messages (db example_state) ''s1'') = 2
   \<and> \<not> is_number (clarity \<lparr>clarity = None, empathy = None, assertiveness = None\<rparr>)
   \<and> status (fst (feedback_handler (fault_env UpdateSession (Completion (Some roundtrip_payload)))
                     example_state (feedback_post ''s1''))) = 200
   \<and> session_table (db (snd (feedback_handler
          (fault_env UpdateSession (Completion (Some roundtrip_payload)))
          example_state (feedback_post ''s1''))))
       = [example_session, example_session2]
   \<and> s_status example_session = ''active'' \<and> s_ended_at example_session = None"
  by code_simp

subsection \<open>C2: fewer than two messages\<close>

text \<open>
  C2. For every session whose message list has fewer than two entries, in a configured
  deployment (the API key is part of the start-up configuration): when a request for it
  is not a preflight request, its body parses and the session lookup finds the row, the
  feedback orchestrator answers with status 500 and
  the error \<^verbatim>\<open>Not enough conversation for feedback\<close>; the run consists of the two
  reads, so the model-inference API is not invoked, and the store is unchanged.
\<close>

theorem not_enough_conversation:
  assumes "configured e" and "req_method req \<noteq> ''OPTIONS''" and "payload req = Parsed b"
    and "store_fault e SelectSession = None"
    and "session_rows (db st) (fr_session_id b) = [s]"
    and "length (session_messages (db st) (fr_session_id b)) < 2"
  shows "fst (feedback_handler e st req) =
           \<lparr>status = 500,
            headers = feedback_corsHeaders @ [(''Content-Type'', ''application/json'')],
            body = ErrorBody ''Not enough conversation for feedback''\<rparr>
       \<and> new_effects st (snd (feedback_handler e st req)) =
           [StoreCall SelectSession, StoreCall SelectMessages]
       \<and> db (snd (feedback_handler e st req)) = db st"
proof -
  let ?st1 = "emit (StoreCall SelectSession) st"
  have s: "select_session e st (fr_session_id b) = (Some (s, embed_scenario (db st) s), ?st1)"
    using select_session_some[OF assms(4,5)] select_session_state[of e st "fr_session_id b"]
    by (simp add: prod_eq_iff)
  have short: "case fst (select_messages e ?st1 (fr_session_id b)) of
                 None \<Rightarrow> True | Some ms \<Rightarrow> length ms < 2"
    using assms(6) by (simp add: select_messages_result db_emit split: option.splits)
  have f: "feedback_try e st req =
      (Inl (Error ''Not enough conversation for feedback''), emit (StoreCall SelectMessages) ?st1)"
    using assms(1,3) short
    by (auto simp add: feedback_try_def configured_def s select_messages_state split_beta
          split: option.splits)
  show ?thesis
    using assms(2) f
    by (simp add: feedback_handler_def feedback_catch_def new_effects_def trace_emit db_emit)
qed

text \<open>An instance: the example session with a single message.\<close>

theorem not_enough_conversation_witness:
  "configured (example_env (Completion None))
   \<and> req_method (feedback_post ''s2'') \<noteq> ''OPTIONS''
   \<and> store_fault (example_env (Completion None)) SelectSession = None
   \<and> session_rows (db example_state) ''s2'' = [example_session2]
   \<and> length (session_messages (db example_state) ''s2'') < 2
   \<and> body (fst (feedback_handler (example_env (Completion None)) example_state
                   (feedback_post ''s2''))) = ErrorBody ''Not enough conversation for feedback''
   \<and> new_effects example_state
        (snd (feedback_handler (example_env (Completion None)) example_state
                (feedback_post ''s2''))) = [StoreCall SelectSession, StoreCall SelectMessages]"
proof -
  let ?e = "example_env (Completion None)"
  let ?b = "\<lparr>fr_session_id = ''s2''\<rparr>"
  have h1: "configured ?e" by code_simp
  have h2: "req_method (feedback_post ''s2'') \<noteq> ''OPTIONS''" by code_simp
  have h3: "payload (feedback_post ''s2'') = Parsed ?b" by (simp add: feedback_post_def)
  have h4: "store_fault ?e SelectSession = None" by code_simp
  have h5: "session_rows (db example_state) (fr_session_id ?b) = [example_session2]" by code_simp
  have h6: "length (session_messages (db example_state) (fr_session_id ?b)) < 2" by code_simp
  from not_enough_conversation[OF h1 h2 h3 h4 h5 h6] h1 h2 h4 h5 h6
  show ?thesis by simp
qed

subsection \<open>C3: the conversation orchestrator does not write\<close>

text \<open>
  C3. For every invocation of the conversation orchestrator no write to the store occurs:
  the store after the run is the store before it (so the message table is unchanged), the
  run makes neither the feedback insert nor the session update, and a run that is neither
  a preflight request nor an error returns, with status 200, the text the model generated.
  The reply is returned: when the key is configured, the body parses, the session and its
  scenario are found and the model answers the assembled request with a text, the
  response is status 200 with that text as the message, and the run consists of the two
  reads and the model call.
\<close>

theorem chat_no_store_write:
   "db (snd (chat_handler e st req)) = db st
    \<and> message_table (db (snd (chat_handler e st req))) = message_table (db st)
    \<and> StoreCall InsertFeedback \<notin> set (new_effects st (snd (chat_handler e st req)))
    \<and> StoreCall UpdateSession \<notin> set (new_effects st (snd (chat_handler e st req)))
    \<and> (req_method req = ''OPTIONS''
       \<or> (\<exists>error. fst (chat_handler e st req) = chat_catch error)
       \<or> (\<exists>rq t. ApiCall rq \<in> set (new_effects st (snd (chat_handler e st req)))
              \<and> completion e rq = Completion t
              \<and> body (fst (chat_handler e st req)) = MessageBody t
              \<and> status (fst (chat_handler e st req)) = 200))
    \<and> (configured e \<and> req_method req \<noteq> ''OPTIONS'' \<and> payload req = Parsed b
        \<and> store_fault e SelectSession = None
        \<and> session_rows (db st) (session_id b) = [s]
        \<and> embed_scenario (db st) s = Some sc
        \<and> completion e (chat_completion_request sc (loaded_history e (db st) (session_id b)) b)
            = Completion t
       \<longrightarrow> fst (chat_handler e st req) =
             \<lparr>status = 200,
              headers = chat_corsHeaders @ [(''Content-Type'', ''application/json'')],
              body = MessageBody t\<rparr>
           \<and> new_effects st (snd (chat_handler e st req)) =
               [StoreCall SelectSession, StoreCall SelectMessages,
                ApiCall (chat_completion_request sc
                           (loaded_history e (db st) (session_id b)) b)])"
proof -
  obtain xs where xs: "trace (snd (chat_try e st req)) = trace st @ xs"
    "StoreCall InsertFeedback \<notin> set xs" "StoreCall UpdateSession \<notin> set xs"
    using chat_try_effects by blast
  have n: "new_effects st (snd (chat_try e st req)) = xs"
    using xs(1) by (rule new_effects_trace)
  have frame: "db (snd (chat_handler e st req)) = db st
    \<and> message_table (db (snd (chat_handler e st req))) = message_table (db st)
    \<and> StoreCall InsertFeedback \<notin> set (new_effects st (snd (chat_handler e st req)))
    \<and> StoreCall UpdateSession \<notin> set (new_effects st (snd (chat_handler e st req)))
    \<and> (req_method req = ''OPTIONS''
       \<or> (\<exists>error. fst (chat_handler e st req) = chat_catch error)
       \<or> (\<exists>rq t. ApiCall rq \<in> set (new_effects st (snd (chat_handler e st req)))
              \<and> completion e rq = Completion t
              \<and> body (fst (chat_handler e st req)) = MessageBody t
              \<and> status (fst (chat_handler e st req)) = 200))"
  proof (cases "req_method req = ''OPTIONS''")
    case True
    then show ?thesis by (simp add: chat_handler_def new_effects_def)
  next
    case False
    show ?thesis
    proof (cases "fst (chat_try e st req)")
      case (Inl err)
      with False show ?thesis
        using xs n chat_try_db[of e st req] by (auto simp add: chat_handler_def split_beta)
    next
      case (Inr r)
      with False show ?thesis
        using xs n chat_try_db[of e st req] chat_try_reply[OF Inr]
        by (auto simp add: chat_handler_def split_beta)
    qed
  qed
  have reply: "fst (chat_handler e st req) =
             \<lparr>status = 200,
              headers = chat_corsHeaders @ [(''Content-Type'', ''application/json'')],
              body = MessageBody t\<rparr>
           \<and> new_effects st (snd (chat_handler e st req)) =
               [StoreCall SelectSession, StoreCall SelectMessages,
                ApiCall (chat_completion_request sc
                           (loaded_history e (db st) (session_id b)) b)]"
    if c: "configured e" and o: "req_method req \<noteq> ''OPTIONS''" and p: "payload req = Parsed b"
      and f: "store_fault e SelectSession = None"
      and r: "session_rows (db st) (session_id b) = [s]"
      and sc: "embed_scenario (db st) s = Some sc"
      and a: "completion e (chat_completion_request sc
                 (loaded_history e (db st) (session_id b)) b) = Completion t"
  proof -
    let ?sid = "session_id b"
    let ?st1 = "emit (StoreCall SelectSession) st"
    let ?st2 = "emit (StoreCall SelectMessages) ?st1"
    let ?rq = "chat_completion_request sc (loaded_history e (db st) ?sid) b"
    have s1: "select_session e st ?sid = (Some (s, Some sc), ?st1)"
      using select_session_some[OF f r] select_session_state[of e st ?sid] sc
      by (simp add: prod_eq_iff)
    have s2: "select_messages e ?st1 ?sid = (fst (select_messages e ?st1 ?sid), ?st2)"
      using select_messages_state[of e ?st1 ?sid] by (simp add: prod_eq_iff)
    have h: "(case fst (select_messages e ?st1 ?sid) of None \<Rightarrow> [] | Some ms \<Rightarrow> ms)
               = loaded_history e (db st) ?sid"
      by (simp add: select_messages_result loaded_history_def db_emit split: option.splits)
    have t: "chat_try e st req =
        (Inr \<lparr>status = 200,
              headers = chat_corsHeaders @ [(''Content-Type'', ''application/json'')],
              body = MessageBody t\<rparr>, emit (ApiCall ?rq) ?st2)"
      using c p a
      by (subst s2 [symmetric] | auto simp add: chat_try_def configured_def s1 h Let_def
            split_beta select_messages_state)+
    show ?thesis
      using o by (simp add: chat_handler_def t new_effects_def trace_emit)
  qed
  from frame reply show ?thesis by blast
qed

text \<open>An instance: a later turn of the example session, answered by the model.\<close>

theorem chat_no_store_write_witness:
  "configured (example_env (Completion (Some ''Hello'')))
   \<and> req_method (chat_post ''s1'' ''Hi'' None) \<noteq> ''OPTIONS''
   \<and> store_fault (example_env (Completion (Some ''Hello''))) SelectSession = None
   \<and> session_rows (db example_state) ''s1'' = [example_session]
   \<and> embed_scenario (db example_state) example_session = Some example_scenario
   \<and> fst (chat_handler (example_env (Completion (Some ''Hello''))) example_state
              (chat_post ''s1'' ''Hi'' None))
       = \<lparr>status = 200,
          headers = chat_corsHeaders @ [(''Content-Type'', ''application/json'')],
          body = MessageBody (Some ''Hello'')\<rparr>
   \<and> db (snd (chat_handler (example_env (Completion (Some ''Hello''))) example_state
                 (chat_post ''s1'' ''Hi'' None))) = db example_state"
proof -
  let ?e = "example_env (Completion (Some ''Hello''))"
  let ?req = "chat_post ''s1'' ''Hi'' None"
  let ?b = "\<lparr>session_id = ''s1'', user_message = ''Hi'', is_initial = None\<rparr>"
  have h1: "configured ?e" by code_simp
  have h2: "req_method ?req \<noteq> ''OPTIONS''" by code_simp
  have h3: "payload ?req = Parsed ?b" by (simp add: chat_post_def)
  have h4: "store_fault ?e SelectSession = None" by code_simp
  have h5: "session_rows (db example_state) (session_id ?b) = [example_session]" by code_simp
  have h6: "embed_scenario (db example_state) example_session = Some example_scenario"
    by code_simp
  have h7: "completion ?e (chat_completion_request example_scenario
              (loaded_history ?e (db example_state) (session_id ?b)) ?b) = Completion (Some ''Hello'')"
    by (simp add: example_env_def)
  note inst = chat_no_store_write[of ?e example_state ?req ?b example_session example_scenario
                "Some ''Hello''"]
  from inst h1 h2 h3 h4 h5 h6 h7
  have "fst (chat_handler ?e example_state ?req)
       = \<lparr>status = 200,
          headers = chat_corsHeaders @ [(''Content-Type'', ''application/json'')],
          body = MessageBody (Some ''Hello'')\<rparr>
     \<and> db (snd (chat_handler ?e example_state ?req)) = db example_state"
    by blast
  with h1 h2 h4 h5 h6 show ?thesis by simp
qed

subsection \<open>C4: insert, then update\<close>

text \<open>
  C4. In every run of the feedback orchestrator the calls made are an initial part of the
  sequence: session lookup, message query, model call, feedback insert, session update; so
  the insert comes strictly before the update. If the insert was made and added no row
  (it failed), the response is the error envelope with the message of the store's error,
  the store is unchanged (the session row keeps its status and end time) and the update
  is not made. A run that added a feedback row made all five calls, the insert followed
  by the update, added exactly that row and returned it with status 200.
\<close>

theorem feedback_insert_before_update:
  assumes run: "feedback_handler e st req = (r, st')"
  shows "(\<exists>rq. prefix (new_effects st st')
                 [StoreCall SelectSession, StoreCall SelectMessages, ApiCall rq,
                  StoreCall InsertFeedback, StoreCall UpdateSession])
       \<and> (StoreCall InsertFeedback \<in> set (new_effects st st')
            \<and> feedback_table (db st') = feedback_table (db st)
          \<longrightarrow> (\<exists>m. insert_error e m \<and> r = feedback_catch (PostgrestError m))
              \<and> db st' = db st
              \<and> StoreCall UpdateSession \<notin> set (new_effects st st'))
       \<and> (feedback_table (db st') \<noteq> feedback_table (db st)
          \<longrightarrow> (\<exists>rq row.
                 new_effects st st' =
                   [StoreCall SelectSession, StoreCall SelectMessages, ApiCall rq,
                    StoreCall InsertFeedback, StoreCall UpdateSession]
               \<and> feedback_table (db st') = feedback_table (db st) @ [row]
               \<and> r = \<lparr>status = 200,
                       headers = feedback_corsHeaders @ [(''Content-Type'', ''application/json'')],
                       body = FeedbackBody row\<rparr>))"
proof (cases "req_method req = ''OPTIONS''")
  case True
  then show ?thesis using run by (simp add: options_run new_effects_self)
next
  case False
  then show ?thesis
  proof (cases rule: feedback_handler_cases[where e=e and st=st])
    case (early err st'')
    then show ?thesis using run by (auto simp add: prefix_def)
  next
    case (upstream b s sc ms err st'')
    then show ?thesis using run by (auto simp add: prefix_def)
  next
    case (unparsed b s sc ms t st'')
    then show ?thesis using run by (auto simp add: prefix_def)
  next
    case (null_value b s sc ms t j m st'')
    then show ?thesis using run by (auto simp add: prefix_def)
  next
    case (insert_failed b s sc ms t j v m st'')
    then show ?thesis using run by (auto simp add: prefix_def)
  next
    case (ok b s sc ms t j v row st'')
    then show ?thesis using run by (auto simp add: prefix_def)
  qed
qed

text \<open>Two instances: the store rejects the insert; the insert succeeds.\<close>

theorem feedback_insert_before_update_witness:
  "StoreCall InsertFeedback \<in> set (new_effects example_state
      (snd (feedback_handler (fault_env InsertFeedback (Completion (Some roundtrip_payload)))
              example_state (feedback_post ''s1''))))
   \<and> feedback_table (db (snd (feedback_handler
         (fault_env InsertFeedback (Completion (Some roundtrip_payload)))
         example_state (feedback_post ''s1'')))) = feedback_table (db example_state)
   \<and> body (fst (feedback_handler (fault_env InsertFeedback (Completion (Some roundtrip_payload)))
              example_state (feedback_post ''s1''))) = ErrorBody ''connection lost''
   \<and> db (snd (feedback_handler (fault_env InsertFeedback (Completion (Some roundtrip_payload)))
              example_state (feedback_post ''s1''))) = db example_state
   \<and> StoreCall UpdateSession \<notin> set (new_effects example_state
      (snd (feedback_handler (fault_env InsertFeedback (Completion (Some roundtrip_payload)))
              example_state (feedback_post ''s1''))))
   \<and> feedback_table (db (snd (feedback_handler
         (example_env (Completion (Some roundtrip_payload)))
         example_state (feedback_post ''s1'')))) \<noteq> feedback_table (db example_state)
   \<and> length (new_effects example_state
         (snd (feedback_handler (example_env (Completion (Some roundtrip_payload)))
                 example_state (feedback_post ''s1'')))) = 5
   \<and> drop 3 (new_effects example_state
         (snd (feedback_handler (example_env (Completion (Some roundtrip_payload)))
                 example_state (feedback_post ''s1''))))
       = [StoreCall InsertFeedback, StoreCall UpdateSession]
   \<and> status (fst (feedback_handler (example_env (Completion (Some roundtrip_payload)))
                 example_state (feedback_post ''s1''))) = 200"
proof -
  let ?run = "feedback_handler (fault_env InsertFeedback (Completion (Some roundtrip_payload)))
                example_state (feedback_post ''s1'')"
  let ?ok = "feedback_handler (example_env (Completion (Some roundtrip_payload)))
                example_state (feedback_post ''s1'')"
  have h: "StoreCall InsertFeedback \<in> set (new_effects example_state (snd ?run))
      \<and> feedback_table (db (snd ?run)) = feedback_table (db example_state)"
    by code_simp
  have b: "body (fst ?run) = ErrorBody ''connection lost''"
    by code_simp
  have "?run = (fst ?run, snd ?run)" by simp
  from feedback_insert_before_update[OF this] h
  have failed: "db (snd ?run) = db example_state
      \<and> StoreCall UpdateSession \<notin> set (new_effects example_state (snd ?run))"
    by blast
  have g: "feedback_table (db (snd ?ok)) \<noteq> feedback_table (db example_state)"
    by code_simp
  have "?ok = (fst ?ok, snd ?ok)" by simp
  from feedback_insert_before_update[OF this] g
  obtain rq row where
    "new_effects example_state (snd ?ok) =
       [StoreCall SelectSession, StoreCall SelectMessages, ApiCall rq,
        StoreCall InsertFeedback, StoreCall UpdateSession]"
    "fst ?ok = \<lparr>status = 200,
                 headers = feedback_corsHeaders @ [(''Content-Type'', ''application/json'')],
                 body = FeedbackBody row\<rparr>"
    by blast
  then have added: "length (new_effects example_state (snd ?ok)) = 5
      \<and> drop 3 (new_effects example_state (snd ?ok))
          = [StoreCall InsertFeedback, StoreCall UpdateSession]
      \<and> status (fst ?ok) = 200"
    by simp
  from h b failed g added show ?thesis by blast
qed

subsection \<open>C5: output limits and temperatures\<close>

text \<open>
  C5 (as amended). Every model call of the conversation orchestrator has the output limit
  200 and the temperature 0.8; every model call of the feedback orchestrator has the
  output limit 500 and the temperature 0.7. The limit of the feedback orchestrator is
  the higher one, and both temperatures are fixed.
\<close>

theorem completion_parameters:
  assumes "ApiCall rq \<in> set (new_effects st (snd (chat_handler e st req)))"
    and "ApiCall rq' \<in> set (new_effects st' (snd (feedback_handler e' st' req')))"
  shows "max_tokens rq = 200 \<and> temperature rq = 8 / 10
       \<and> max_tokens rq' = 500 \<and> temperature rq' = 7 / 10
       \<and> max_tokens rq < max_tokens rq'"
  using chat_handler_api_call[OF assms(1)] feedback_handler_api_call[OF assms(2)]
  by (auto simp add: chat_completion_request_def feedback_completion_request_def)

text \<open>An instance: the two calls made for the example session.\<close>

theorem completion_parameters_witness:
  "ApiCall (chat_completion_request example_scenario example_history
              \<lparr>session_id = ''s1'', user_message = ''Hi'', is_initial = None\<rparr>)
     \<in> set (new_effects example_state
         (snd (chat_handler (example_env (Completion (Some ''Hello''))) example_state
                 (chat_post ''s1'' ''Hi'' None))))
   \<and> ApiCall (feedback_completion_request example_scenario example_history)
     \<in> set (new_effects example_state
         (snd (feedback_handler (example_env (Completion (Some roundtrip_payload))) example_state
                 (feedback_post ''s1''))))
   \<and> max_tokens (chat_completion_request example_scenario example_history
              \<lparr>session_id = ''s1'', user_message = ''Hi'', is_initial = None\<rparr>) = 200
   \<and> max_tokens (feedback_completion_request example_scenario example_history) = 500
   \<and> temperature (chat_completion_request example_scenario example_history
              \<lparr>session_id = ''s1'', user_message = ''Hi'', is_initial = None\<rparr>) = 8 / 10
   \<and> temperature (feedback_completion_request example_scenario example_history) = 7 / 10"
proof -
  let ?rq = "chat_completion_request example_scenario example_history
              \<lparr>session_id = ''s1'', user_message = ''Hi'', is_initial = None\<rparr>"
  let ?rq' = "feedback_completion_request example_scenario example_history"
  have h1: "ApiCall ?rq \<in> set (new_effects example_state
         (snd (chat_handler (example_env (Completion (Some ''Hello''))) example_state
                 (chat_post ''s1'' ''Hi'' None))))"
    by code_simp
  have h2: "ApiCall ?rq' \<in> set (new_effects example_state
         (snd (feedback_handler (example_env (Completion (Some roundtrip_payload))) example_state
                 (feedback_post ''s1''))))"
    by code_simp
  from completion_parameters[OF h1 h2] h1 h2 show ?thesis by blast
qed

text \<open>
  The limit of the feedback orchestrator is not lower than that of the conversation
  orchestrator: the calls logged for the example session carry 500 and 200.
\<close>

theorem feedback_token_limit_not_lower:
  "api_max_tokens (new_effects example_state
      (snd (feedback_handler (example_env (Completion (Some roundtrip_payload))) example_state
              (feedback_post ''s1'')))) = [500]
   \<and> api_max_tokens (new_effects example_state
      (snd (chat_handler (example_env (Completion (Some ''Hello''))) example_state
              (chat_post ''s1'' ''Hi'' None)))) = [200]
   \<and> \<not> (500 :: nat) < 200"
  by code_simp

subsection \<open>C6: the round trip\<close>

text \<open>
  C6. For every conversation of at least two messages (so for some): if the session and its
  scenario are found, the store answers, and the model returns exactly the round-trip
  payload, then the feedback orchestrator returns status 200 with the inserted feedback
  row, the feedback table gains exactly that row, and the row's scores object is
  clarity 4, empathy 3, assertiveness 5.
\<close>

theorem roundtrip_scores:
  assumes "configured e" and "req_method req \<noteq> ''OPTIONS''" and "payload req = Parsed b"
    and "store_fault e SelectSession = None"
    and "session_rows (db st) (fr_session_id b) = [s]"
    and "embed_scenario (db st) s = Some sc"
    and "store_fault e SelectMessages = None"
    and "2 \<le> length (session_messages (db st) (fr_session_id b))"
    and "completion e (feedback_completion_request sc
            (sort_key m_created_at (session_messages (db st) (fr_session_id b))))
          = Completion (Some roundtrip_payload)"
    and "store_fault e InsertFeedback = None"
  shows "\<exists>row. body (fst (feedback_handler e st req)) = FeedbackBody row
       \<and> status (fst (feedback_handler e st req)) = 200
       \<and> feedback_table (db (snd (feedback_handler e st req))) = feedback_table (db st) @ [row]
       \<and> f_session_id row = Some (fr_session_id b)
       \<and> f_summary row = JString ''ok''
       \<and> f_scores row =
           \<lparr>clarity = Some (JNumber 4), empathy = Some (JNumber 3), assertiveness = Some (JNumber 5)\<rparr>"
proof -
  let ?sid = "fr_session_id b"
  let ?ms = "sort_key m_created_at (session_messages (db st) ?sid)"
  let ?st1 = "emit (StoreCall SelectSession) st"
  let ?st2 = "emit (StoreCall SelectMessages) ?st1"
  let ?st3 = "emit (ApiCall (feedback_completion_request sc ?ms)) ?st2"
  have s: "select_session e st ?sid = (Some (s, Some sc), ?st1)"
    using select_session_some[OF assms(4,5)] select_session_state[of e st ?sid] assms(6)
    by (simp add: prod_eq_iff)
  have m: "select_messages e ?st1 ?sid = (Some ?ms, ?st2)"
    using assms(7) select_messages_state[of e ?st1 ?sid]
    by (simp add: prod_eq_iff select_messages_result db_emit)
  have len: "\<not> length ?ms < 2" using assms(8) by simp
  have t: "feedback_try e st req = feedback_persist e ?st3 ?sid (Some roundtrip_payload)"
    using assms(1,3,9) len
    by (auto simp add: feedback_try_def configured_def s m feedback_evaluate_def Let_def)
  have v: "feedback_values e ?sid roundtrip_json
     = Inr \<lparr>i_session_id = ?sid, i_summary = Some (JString ''ok''),
             i_scores = \<lparr>clarity = Some (JNumber 4), empathy = Some (JNumber 3),
                          assertiveness = Some (JNumber 5)\<rparr>,
             i_recommendations = Some (JString roundtrip_recommendations)\<rparr>"
    by (simp add: feedback_values_def roundtrip_json_def)
  have ex: "list_ex (\<lambda>x. s_id x = ?sid) (session_table (db ?st3))"
    using session_row_exists[OF assms(5)] by (simp add: db_emit)
  show ?thesis
    using assms(2,10) ex
    by (simp add: feedback_handler_def t feedback_persist_def ToString_def parse_roundtrip v
          insert_feedback_def wire_body_def sql_value_def Let_def update_session_tables db_emit)
qed

text \<open>An instance: the example session with two messages.\<close>

theorem roundtrip_scores_witness:
  "configured (example_env (Completion (Some roundtrip_payload)))
   \<and> req_method (feedback_post ''s1'') \<noteq> ''OPTIONS''
   \<and> session_rows (db example_state) ''s1'' = [example_session]
   \<and> embed_scenario (db example_state) example_session = Some example_scenario
   \<and> 2 \<le> length (session_messages (db example_state) ''s1'')
   \<and> status (fst (feedback_handler (example_env (Completion (Some roundtrip_payload)))
                     example_state (feedback_post ''s1''))) = 200
   \<and> map f_scores (feedback_table (db (snd (feedback_handler
          (example_env (Completion (Some roundtrip_payload))) example_state
          (feedback_post ''s1'')))))
       = [\<lparr>clarity = Some (JNumber 4), empathy = Some (JNumber 3), assertiveness = Some (JNumber 5)\<rparr>]"
proof -
  let ?e = "example_env (Completion (Some roundtrip_payload))"
  let ?b = "\<lparr>fr_session_id = ''s1''\<rparr>"
  have h1: "configured ?e" by code_simp
  have h2: "req_method (feedback_post ''s1'') \<noteq> ''OPTIONS''" by code_simp
  have h3: "payload (feedback_post ''s1'') = Parsed ?b" by (simp add: feedback_post_def)
  have h4: "store_fault ?e SelectSession = None" by code_simp
  have h5: "session_rows (db example_state) (fr_session_id ?b) = [example_session]" by code_simp
  have h6: "embed_scenario (db example_state) example_session = Some example_scenario"
    by code_simp
  have h7: "store_fault ?e SelectMessages = None" by code_simp
  have h8: "2 \<le> length (session_messages (db example_state) (fr_session_id ?b))" by code_simp
  have h9: "completion ?e (feedback_completion_request example_scenario
            (sort_key m_created_at (session_messages (db example_state) (fr_session_id ?b))))
          = Completion (Some roundtrip_payload)"
    by (simp add: example_env_def)
  have h10: "store_fault ?e InsertFeedback = None" by code_simp
  have empty: "feedback_table (db example_state) = []" by code_simp
  from roundtrip_scores[OF h1 h2 h3 h4 h5 h6 h7 h8 h9 h10] empty
  have "status (fst (feedback_handler ?e example_state (feedback_post ''s1''))) = 200
      \<and> map f_scores (feedback_table (db (snd (feedback_handler ?e example_state
            (feedback_post ''s1'')))))
         = [\<lparr>clarity = Some (JNumber 4), empathy = Some (JNumber 3),
             assertiveness = Some (JNumber 5)\<rparr>]"
    by auto
  with h1 h2 h5 h6 h8 show ?thesis by simp
qed

subsection \<open>C7: the message list sent to the model\<close>

text \<open>
  C7 (as amended). For every invocation of the conversation orchestrator that calls the
  model, when the store answered the message query: the message list sent is one system
  instruction, then all messages of the session in creation-time order, oldest first
  (a permutation of the session's rows, sorted by creation time, each with its content
  and with the role \<^verbatim>\<open>assistant\<close> or else \<^verbatim>\<open>user\<close>), then, when this is not the
  opening turn and the new user message is not empty, the new user message last. The
  system instruction contains the scenario's persona and objective, and on the opening
  turn it ends with the request to introduce itself and the scenario context.
\<close>

theorem chat_message_list:
  assumes call: "ApiCall rq \<in> set (new_effects st (snd (chat_handler e st req)))"
    and answered: "store_fault e SelectMessages = None"
  shows "\<exists>b s sc history.
           payload req = Parsed b
         \<and> session_rows (db st) (session_id b) = [s] \<and> embed_scenario (db st) s = Some sc
         \<and> history = sort_key m_created_at (session_messages (db st) (session_id b))
         \<and> mset history = mset (session_messages (db st) (session_id b))
         \<and> sorted (map m_created_at history)
         \<and> messages rq =
             \<lparr>role = ''system'', content = chat_systemPrompt sc (is_initial b)\<rparr>
               # map history_message history
               @ (if \<not> truthy (is_initial b) \<and> user_message b \<noteq> ''''
                  then [\<lparr>role = ''user'', content = user_message b\<rparr>] else [])
         \<and> sublist (sc_ai_persona sc) (chat_systemPrompt sc (is_initial b))
         \<and> sublist (sc_objective sc) (chat_systemPrompt sc (is_initial b))
         \<and> (truthy (is_initial b) \<longrightarrow>
              suffix ''Start the conversation by introducing yourself and the scenario context.''
                (chat_systemPrompt sc (is_initial b)))"
proof -
  from chat_handler_api_call[OF call] obtain b s sc where
    b: "payload req = Parsed b"
    and s: "session_rows (db st) (session_id b) = [s]" "embed_scenario (db st) s = Some sc"
    and rq: "rq = chat_completion_request sc
                (case fst (select_messages e (emit (StoreCall SelectSession) st) (session_id b)) of
                   None \<Rightarrow> [] | Some ms \<Rightarrow> ms) b"
    by blast
  let ?history = "sort_key m_created_at (session_messages (db st) (session_id b))"
  have sel: "fst (select_messages e (emit (StoreCall SelectSession) st) (session_id b)) = Some ?history"
    using answered by (simp add: select_messages_result db_emit)
  have m: "messages rq =
             \<lparr>role = ''system'', content = chat_systemPrompt sc (is_initial b)\<rparr>
               # map history_message ?history
               @ (if \<not> truthy (is_initial b) \<and> user_message b \<noteq> ''''
                  then [\<lparr>role = ''user'', content = user_message b\<rparr>] else [])"
    by (simp add: rq sel chat_completion_request_def chat_openaiMessages_def Let_def)
  have p: "mset ?history = mset (session_messages (db st) (session_id b))"
    by simp
  have o: "sorted (map m_created_at ?history)"
    by (rule sorted_sort_key)
  show ?thesis
    using b s m p o persona_in_prompt objective_in_prompt introduction_in_prompt by blast
qed

text \<open>An instance: a later turn of the example session.\<close>

theorem chat_message_list_witness:
  "ApiCall (chat_completion_request example_scenario example_history
              \<lparr>session_id = ''s1'', user_message = ''Hi'', is_initial = None\<rparr>)
     \<in> set (new_effects example_state
         (snd (chat_handler (example_env (Completion (Some ''Hello''))) example_state
                 (chat_post ''s1'' ''Hi'' None))))
   \<and> store_fault (example_env (Completion (Some ''Hello''))) SelectMessages = None
   \<and> example_history = sort_key m_created_at (session_messages (db example_state) ''s1'')
   \<and> sorted (map m_created_at example_history)
   \<and> messages (chat_completion_request example_scenario example_history
              \<lparr>session_id = ''s1'', user_message = ''Hi'', is_initial = None\<rparr>)
       = [\<lparr>role = ''system'', content = chat_systemPrompt example_scenario None\<rparr>,
          \<lparr>role = ''assistant'', content = ''Welcome''\<rparr>,
          \<lparr>role = ''user'', content = ''Hello''\<rparr>,
          \<lparr>role = ''user'', content = ''Hi''\<rparr>]"
proof -
  let ?e = "example_env (Completion (Some ''Hello''))"
  let ?b = "\<lparr>session_id = ''s1'', user_message = ''Hi'', is_initial = None\<rparr>"
  let ?rq = "chat_completion_request example_scenario example_history ?b"
  have h1: "ApiCall ?rq \<in> set (new_effects example_state
         (snd (chat_handler ?e example_state (chat_post ''s1'' ''Hi'' None))))"
    by code_simp
  have h2: "store_fault ?e SelectMessages = None" by code_simp
  have p: "payload (chat_post ''s1'' ''Hi'' None) = Parsed ?b" by (simp add: chat_post_def)
  have s: "session_rows (db example_state) ''s1'' = [example_session]" by code_simp
  have c: "embed_scenario (db example_state) example_session = Some example_scenario"
    by code_simp
  have hist: "example_history = sort_key m_created_at (session_messages (db example_state) ''s1'')"
    by code_simp
  have u: "\<not> truthy None \<and> ''Hi'' \<noteq> ''''" by code_simp
  have hm: "map history_message example_history
      = [\<lparr>role = ''assistant'', content = ''Welcome''\<rparr>, \<lparr>role = ''user'', content = ''Hello''\<rparr>]"
    by code_simp
  from chat_message_list[OF h1 h2] obtain b s' sc history where
    f: "payload (chat_post ''s1'' ''Hi'' None) = Parsed b"
      "session_rows (db example_state) (session_id b) = [s']"
      "embed_scenario (db example_state) s' = Some sc"
      "history = sort_key m_created_at (session_messages (db example_state) (session_id b))"
      "sorted (map m_created_at history)"
      "messages ?rq =
             \<lparr>role = ''system'', content = chat_systemPrompt sc (is_initial b)\<rparr>
               # map history_message history
               @ (if \<not> truthy (is_initial b) \<and> user_message b \<noteq> ''''
                  then [\<lparr>role = ''user'', content = user_message b\<rparr>] else [])"
    by blast
  have b: "b = ?b" using f(1) p by simp
  have s': "s' = example_session" using f(2) s b by simp
  have sc: "sc = example_scenario" using f(3) c s' by simp
  have h: "history = example_history" using f(4) hist b by simp
  have "sorted (map m_created_at example_history)" using f(5) h by simp
  moreover have "messages ?rq
       = [\<lparr>role = ''system'', content = chat_systemPrompt example_scenario None\<rparr>,
          \<lparr>role = ''assistant'', content = ''Welcome''\<rparr>,
          \<lparr>role = ''user'', content = ''Hello''\<rparr>,
          \<lparr>role = ''user'', content = ''Hi''\<rparr>]"
    using f(6) u by (simp only: b sc h hm) simp
  ultimately show ?thesis using h1 h2 hist by blast
qed

text \<open>
  The two conditions are needed. On a turn that is not the opening turn and has an empty
  user message the list ends with the last prior message; and when the message query
  fails the list has no prior message although the session has two.
\<close>

theorem chat_message_list_gaps:
  "new_effects example_state
      (snd (chat_handler (example_env (Completion (Some ''Hello''))) example_state
              (chat_post ''s1'' '''' (Some False))))
     = [StoreCall SelectSession, StoreCall SelectMessages,
        ApiCall \<lparr>model = ''gpt-4o-mini'',
                 messages =
                   [\<lparr>role = ''system'', content = chat_systemPrompt example_scenario (Some False)\<rparr>,
                    \<lparr>role = ''assistant'', content = ''Welcome''\<rparr>,
                    \<lparr>role = ''user'', content = ''Hello''\<rparr>],
                 temperature = 8 / 10, max_tokens = 200\<rparr>]
   \<and> length (session_messages (db example_state) ''s1'') = 2
   \<and> new_effects example_state
      (snd (chat_handler (fault_env SelectMessages (Completion (Some ''Hello''))) example_state
              (chat_post ''s1'' ''Hi'' (Some False))))
     = [StoreCall SelectSession, StoreCall SelectMessages,
        ApiCall \<lparr>model = ''gpt-4o-mini'',
                 messages =
                   [\<lparr>role = ''system'', content = chat_systemPrompt example_scenario (Some False)\<rparr>,
                    \<lparr>role = ''user'', content = ''Hi''\<rparr>],
                 temperature = 8 / 10, max_tokens = 200\<rparr>]"
  by code_simp

subsection \<open>C8: model output that is not JSON\<close>

text \<open>
  C8. For every model response whose text fails to parse as JSON, the feedback
  orchestrator returns the error envelope: status 500, the cross-origin headers and the
  content type, and as body the error with the parser's message (or
  \<^verbatim>\<open>Internal server error\<close> when that message is empty). Nothing is written to the
  store.
\<close>

theorem malformed_model_output:
  assumes call: "ApiCall rq \<in> set (new_effects st (snd (feedback_handler e st req)))"
    and answer: "completion e rq = Completion t"
    and bad: "JSON_parse (ToString t) = None"
  shows "fst (feedback_handler e st req) =
           \<lparr>status = 500,
            headers = feedback_corsHeaders @ [(''Content-Type'', ''application/json'')],
            body = ErrorBody (if syntax_error_message e (ToString t) = ''''
                              then ''Internal server error''
                              else syntax_error_message e (ToString t))\<rparr>
       \<and> db (snd (feedback_handler e st req)) = db st"
proof (cases "req_method req = ''OPTIONS''")
  case True
  then show ?thesis using call by (simp add: options_run new_effects_self)
next
  case False
  then show ?thesis
  proof (cases rule: feedback_handler_cases[where e=e and st=st])
    case (early err st'')
    then show ?thesis using call by auto
  next
    case (upstream b s sc ms err st'')
    then show ?thesis using call answer by auto
  next
    case (unparsed b s sc ms t' st'')
    then show ?thesis using call answer by (auto simp add: feedback_catch_def)
  next
    case (null_value b s sc ms t' j m st'')
    then show ?thesis using call answer bad by auto
  next
    case (insert_failed b s sc ms t' j v m st'')
    then show ?thesis using call answer bad by auto
  next
    case (ok b s sc ms t' j v row st'')
    then show ?thesis using call answer bad by auto
  qed
qed

text \<open>An instance: commentary text in front of the JSON object.\<close>

theorem malformed_model_output_witness:
  "ApiCall (feedback_completion_request example_scenario example_history)
     \<in> set (new_effects example_state
         (snd (feedback_handler (example_env (Completion (Some commentary_payload))) example_state
                 (feedback_post ''s1''))))
   \<and> completion (example_env (Completion (Some commentary_payload)))
        (feedback_completion_request example_scenario example_history)
        = Completion (Some commentary_payload)
   \<and> JSON_parse (ToString (Some commentary_payload)) = None
   \<and> fst (feedback_handler (example_env (Completion (Some commentary_payload))) example_state
                 (feedback_post ''s1''))
        = \<lparr>status = 500,
           headers = feedback_corsHeaders @ [(''Content-Type'', ''application/json'')],
           body = ErrorBody ''Unexpected token''\<rparr>
   \<and> db (snd (feedback_handler (example_env (Completion (Some commentary_payload))) example_state
                 (feedback_post ''s1''))) = db example_state"
proof -
  let ?e = "example_env (Completion (Some commentary_payload))"
  let ?rq = "feedback_completion_request example_scenario example_history"
  have h1: "ApiCall ?rq \<in> set (new_effects example_state
         (snd (feedback_handler ?e example_state (feedback_post ''s1''))))"
    by code_simp
  have h2: "completion ?e ?rq = Completion (Some commentary_payload)"
    by (simp add: example_env_def)
  have h3: "JSON_parse (ToString (Some commentary_payload)) = None"
    by code_simp
  have m: "syntax_error_message ?e (ToString (Some commentary_payload)) = ''Unexpected token''"
    by (simp add: example_env_def)
  from malformed_model_output[OF h1 h2 h3] h1 h2 h3 m
  show ?thesis by simp
qed

subsection \<open>C9: unknown session identifier\<close>

text \<open>
  C9. For every session identifier that matches no session row, in a configured
  deployment (the API key is part of the start-up configuration): when the request is not
  a preflight request and its body parses, both orchestrators answer with status 500 and
  the error \<^verbatim>\<open>Session not found\<close>; the
  run consists of the session lookup alone, so the model-inference API is not called and
  the error is not an upstream error, and the store is unchanged.
\<close>

theorem session_lookup_failure:
  assumes "configured e" and "req_method req \<noteq> ''OPTIONS''" and "payload req = Parsed b"
    and "session_rows (db st) (session_id b) = []"
    and "configured e'" and "req_method req' \<noteq> ''OPTIONS''" and "payload req' = Parsed b'"
    and "session_rows (db st') (fr_session_id b') = []"
  shows "fst (chat_handler e st req) =
           \<lparr>status = 500,
            headers = chat_corsHeaders @ [(''Content-Type'', ''application/json'')],
            body = ErrorBody ''Session not found''\<rparr>
       \<and> new_effects st (snd (chat_handler e st req)) = [StoreCall SelectSession]
       \<and> db (snd (chat_handler e st req)) = db st
       \<and> fst (feedback_handler e' st' req') =
           \<lparr>status = 500,
            headers = feedback_corsHeaders @ [(''Content-Type'', ''application/json'')],
            body = ErrorBody ''Session not found''\<rparr>
       \<and> new_effects st' (snd (feedback_handler e' st' req')) = [StoreCall SelectSession]
       \<and> db (snd (feedback_handler e' st' req')) = db st'"
proof -
  have c: "chat_try e st req = (Inl (Error ''Session not found''), emit (StoreCall SelectSession) st)"
    using assms(1,3) select_session_none[OF assms(4), of e]
      select_session_state[of e st "session_id b"]
    by (auto simp add: chat_try_def configured_def split_beta)
  have f: "feedback_try e' st' req' =
             (Inl (Error ''Session not found''), emit (StoreCall SelectSession) st')"
    using assms(5,7) select_session_none[OF assms(8), of e']
      select_session_state[of e' st' "fr_session_id b'"]
    by (auto simp add: feedback_try_def configured_def split_beta)
  show ?thesis
    using assms(2,6) c f
    by (simp add: chat_handler_def feedback_handler_def chat_catch_def feedback_catch_def
          new_effects_def trace_emit db_emit)
qed

text \<open>An instance: an identifier that is not in the example store.\<close>

theorem session_lookup_failure_witness:
  "configured (example_env (Completion None))
   \<and> req_method (chat_post ''missing'' ''Hi'' None) \<noteq> ''OPTIONS''
   \<and> req_method (feedback_post ''missing'') \<noteq> ''OPTIONS''
   \<and> session_rows (db example_state) ''missing'' = []
   \<and> body (fst (chat_handler (example_env (Completion None)) example_state
                   (chat_post ''missing'' ''Hi'' None))) = ErrorBody ''Session not found''
   \<and> new_effects example_state
        (snd (chat_handler (example_env (Completion None)) example_state
                (chat_post ''missing'' ''Hi'' None))) = [StoreCall SelectSession]
   \<and> body (fst (feedback_handler (example_env (Completion None)) example_state
                   (feedback_post ''missing''))) = ErrorBody ''Session not found''
   \<and> new_effects example_state
        (snd (feedback_handler (example_env (Completion None)) example_state
                (feedback_post ''missing''))) = [StoreCall SelectSession]"
proof -
  let ?e = "example_env (Completion None)"
  let ?b = "\<lparr>session_id = ''missing'', user_message = ''Hi'', is_initial = None\<rparr>"
  let ?b' = "\<lparr>fr_session_id = ''missing''\<rparr>"
  have h1: "configured ?e" by code_simp
  have h2: "req_method (chat_post ''missing'' ''Hi'' None) \<noteq> ''OPTIONS''" by code_simp
  have h3: "payload (chat_post ''missing'' ''Hi'' None) = Parsed ?b"
    by (simp add: chat_post_def)
  have h4: "session_rows (db example_state) (session_id ?b) = []" by code_simp
  have h6: "req_method (feedback_post ''missing'') \<noteq> ''OPTIONS''" by code_simp
  have h7: "payload (feedback_post ''missing'') = Parsed ?b'"
    by (simp add: feedback_post_def)
  have h8: "session_rows (db example_state) (fr_session_id ?b') = []" by code_simp
  from session_lookup_failure[OF h1 h2 h3 h4 h1 h6 h7 h8] h1 h2 h4 h6
  show ?thesis by simp
qed

subsection \<open>C10: cross-origin headers\<close>

text \<open>
  C10. The two handlers have the same cross-origin headers: any origin, the fixed list
  of allowed verbs, the fixed list of allowed headers. Every response of either handler
  carries exactly these headers, alone (the preflight response) or followed by the JSON
  content type (every success and every error response).
\<close>

theorem cors_headers_everywhere:
  "feedback_corsHeaders = chat_corsHeaders
   \<and> chat_corsHeaders =
       [(''Access-Control-Allow-Origin'', ''*''),
        (''Access-Control-Allow-Methods'', ''GET, POST, PUT, DELETE, OPTIONS''),
        (''Access-Control-Allow-Headers'', ''Content-Type, Authorization, X-Client-Info, Apikey'')]
   \<and> (headers (fst (chat_handler e st req)) = chat_corsHeaders
      \<or> headers (fst (chat_handler e st req))
          = chat_corsHeaders @ [(''Content-Type'', ''application/json'')])
   \<and> (headers (fst (feedback_handler e' st' req')) = chat_corsHeaders
      \<or> headers (fst (feedback_handler e' st' req'))
          = chat_corsHeaders @ [(''Content-Type'', ''application/json'')])"
proof -
  have eq: "feedback_corsHeaders = chat_corsHeaders"
    by (simp add: feedback_corsHeaders_def chat_corsHeaders_def)
  have c: "headers (fst (chat_handler e st req)) = chat_corsHeaders
      \<or> headers (fst (chat_handler e st req))
          = chat_corsHeaders @ [(''Content-Type'', ''application/json'')]"
    by (cases "fst (chat_try e st req)")
       (auto simp add: chat_handler_def split_beta chat_catch_def dest: chat_try_headers)
  have f: "headers (fst (feedback_handler e' st' req')) = feedback_corsHeaders
      \<or> headers (fst (feedback_handler e' st' req'))
          = feedback_corsHeaders @ [(''Content-Type'', ''application/json'')]"
    by (cases "fst (feedback_try e' st' req')")
       (auto simp add: feedback_handler_def split_beta feedback_catch_def
          dest: feedback_try_headers)
  show ?thesis using eq c f by (simp add: chat_corsHeaders_def)
qed

end
